theory Spec2Isabelle
  imports Main
begin

section \<open>The MonitorStack API types (package v1)\<close>

text \<open>
  The Go structs of the custom resource, one record each.  Field names carry a short
  prefix of their struct, since several structs share field names (Name, Type, Image).
  An \<open>int32\<close> field is read as its integer value: the controller only compares these
  fields with constants and copies them, so no arithmetic can wrap.
  A Go \<open>map[string]string\<close> is a partial function; the nil map is the empty map.
\<close>

record ResourceList =
  rl_CPU :: string
  rl_Memory :: string

record ResourceRequirements =
  rq_Limits :: ResourceList
  rq_Requests :: ResourceList

record StorageSpec =
  sto_Size :: string
  sto_StorageClass :: string

record ServiceSpec =
  sv_Type :: string
  sv_Port :: int
  sv_NodePort :: int
  sv_Labels :: "string \<rightharpoonup> string"

record DatasourceSpec =
  dsrc_Name :: string
  dsrc_Type :: string
  dsrc_URL :: string

record DashboardSpec =
  dash_Name :: string
  dash_JSON :: string
  dash_URL :: string

record PrometheusSpec =
  p_Enabled :: bool
  p_Image :: string
  p_Tag :: string
  p_Resources :: ResourceRequirements
  p_Storage :: StorageSpec
  p_Service :: ServiceSpec
  p_Config :: string
  p_Retention :: string

record GrafanaSpec =
  g_Enabled :: bool
  g_Image :: string
  g_Tag :: string
  g_Resources :: ResourceRequirements
  g_Service :: ServiceSpec
  g_AdminPassword :: string
  g_Datasources :: "DatasourceSpec list"
  g_Dashboards :: "DashboardSpec list"

record MonitorStackSpec =
  Prometheus :: PrometheusSpec
  Grafana :: GrafanaSpec
  spec_Namespace :: string
  spec_Labels :: "string \<rightharpoonup> string"

record ComponentStatus =
  cs_Ready :: bool
  cs_Replicas :: int
  cs_Message :: string
  cs_Endpoint :: string

text \<open>\<open>LastUpdated\<close> is a \<open>metav1.Time\<close>: a point in time, counted in clock ticks.
  A condition is kept as its (type, status) pair; the controller never touches the list.\<close>

record MonitorStackStatus =
  Phase :: string
  Message :: string
  PrometheusStatus :: ComponentStatus
  GrafanaStatus :: ComponentStatus
  LastUpdated :: nat
  Conditions :: "(string \<times> string) list"

text \<open>Of the embedded \<open>ObjectMeta\<close> the controller reads the name, the namespace, the
  deletion timestamp and the finalizers.\<close>

record MonitorStack =
  ms_Name :: string
  ms_Namespace :: string
  ms_DeletionTimestamp :: "nat option"
  ms_Finalizers :: "string list"
  ms_Spec :: MonitorStackSpec
  ms_Status :: MonitorStackStatus

section \<open>Errors and formatting\<close>

text \<open>
  A Go \<open>error\<close> is a value: \<open>Errorf\<close> is \<open>fmt.Errorf\<close> with a finished message,
  \<open>Wrap p e\<close> is \<open>fmt.Errorf(p + "%w", e)\<close>, and \<open>StatusError\<close> is what the API
  client returns, with the reason \<open>errors.IsNotFound\<close> looks at.
\<close>

datatype StatusReason = NotFound | AlreadyExists | Conflict | InternalError | Timeout

datatype error =
    Errorf string
  | StatusError StatusReason string
  | Wrap string error

fun Error :: "error \<Rightarrow> string" where
  "Error (Errorf s) = s"
| "Error (StatusError r s) = s"
| "Error (Wrap p e) = p @ Error e"

fun IsNotFound :: "error \<Rightarrow> bool" where
  "IsNotFound (Errorf s) = False"
| "IsNotFound (StatusError r s) = (r = NotFound)"
| "IsNotFound (Wrap p e) = IsNotFound e"

text \<open>The verb \<open>%d\<close> of \<open>fmt.Sprintf\<close>: decimal digits, with a minus sign below zero.\<close>

function show_nat :: "nat \<Rightarrow> string" where
  "show_nat n =
     (if n < 10 then [''0123456789'' ! n]
      else show_nat (n div 10) @ [''0123456789'' ! (n mod 10)])"
  by pat_completeness auto
termination
  by (relation "measure id") auto

declare show_nat.simps [simp del]

definition show_int :: "int \<Rightarrow> string" where
  "show_int i = (if i < 0 then CHR ''-'' # show_nat (nat (- i)) else show_nat (nat i))"

section \<open>Resource names (helpers.go)\<close>

definition getPrometheusName :: "MonitorStack \<Rightarrow> string" where
  "getPrometheusName monitorStack = ms_Name monitorStack @ ''-prometheus''"

definition getPrometheusServiceName :: "MonitorStack \<Rightarrow> string" where
  "getPrometheusServiceName monitorStack = ms_Name monitorStack @ ''-prometheus''"

definition getPrometheusConfigMapName :: "MonitorStack \<Rightarrow> string" where
  "getPrometheusConfigMapName monitorStack = ms_Name monitorStack @ ''-prometheus-config''"

definition getPrometheusPVCName :: "MonitorStack \<Rightarrow> string" where
  "getPrometheusPVCName monitorStack = ms_Name monitorStack @ ''-prometheus-data''"

definition getGrafanaName :: "MonitorStack \<Rightarrow> string" where
  "getGrafanaName monitorStack = ms_Name monitorStack @ ''-grafana''"

definition getGrafanaServiceName :: "MonitorStack \<Rightarrow> string" where
  "getGrafanaServiceName monitorStack = ms_Name monitorStack @ ''-grafana''"

definition getGrafanaDatasourcesConfigMapName :: "MonitorStack \<Rightarrow> string" where
  "getGrafanaDatasourcesConfigMapName monitorStack =
     ms_Name monitorStack @ ''-grafana-datasources''"


section \<open>Validation (helpers.go)\<close>

definition validatePrometheusConfig :: "MonitorStack \<Rightarrow> error option" where
  "validatePrometheusConfig monitorStack =
     (let prometheus = Prometheus (ms_Spec monitorStack) in
      if sv_Port (p_Service prometheus) < 1 \<or> sv_Port (p_Service prometheus) > 65535 then
        Some (Errorf (''service port must be between 1 and 65535, got '' @
                      show_int (sv_Port (p_Service prometheus))))
      else if sv_Type (p_Service prometheus) = ''NodePort'' \<and>
              sv_NodePort (p_Service prometheus) > 0 \<and>
              (sv_NodePort (p_Service prometheus) < 30000 \<or>
               sv_NodePort (p_Service prometheus) > 32767) then
        Some (Errorf (''nodePort must be between 30000 and 32767, got '' @
                      show_int (sv_NodePort (p_Service prometheus))))
      else if p_Image prometheus = [] then
        Some (Errorf ''prometheus image cannot be empty'')
      else if p_Tag prometheus = [] then
        Some (Errorf ''prometheus tag cannot be empty'')
      else None)"

text \<open>The loop over \<open>grafana.Datasources\<close>, with the running index \<open>i\<close>.\<close>

fun validateDatasources :: "nat \<Rightarrow> DatasourceSpec list \<Rightarrow> error option" where
  "validateDatasources i [] = None"
| "validateDatasources i (ds # rest) =
     (if dsrc_Name ds = [] then
        Some (Errorf (''datasource['' @ show_nat i @ ''] name cannot be empty''))
      else if dsrc_Type ds = [] then
        Some (Errorf (''datasource['' @ show_nat i @ ''] type cannot be empty''))
      else if dsrc_URL ds = [] then
        Some (Errorf (''datasource['' @ show_nat i @ ''] URL cannot be empty''))
      else validateDatasources (Suc i) rest)"

definition validateGrafanaConfig :: "MonitorStack \<Rightarrow> error option" where
  "validateGrafanaConfig monitorStack =
     (let grafana = Grafana (ms_Spec monitorStack) in
      if sv_Port (g_Service grafana) < 1 \<or> sv_Port (g_Service grafana) > 65535 then
        Some (Errorf (''service port must be between 1 and 65535, got '' @
                      show_int (sv_Port (g_Service grafana))))
      else if sv_Type (g_Service grafana) = ''NodePort'' \<and>
              sv_NodePort (g_Service grafana) > 0 \<and>
              (sv_NodePort (g_Service grafana) < 30000 \<or>
               sv_NodePort (g_Service grafana) > 32767) then
        Some (Errorf (''nodePort must be between 30000 and 32767, got '' @
                      show_int (sv_NodePort (g_Service grafana))))
      else if g_Image grafana = [] then
        Some (Errorf ''grafana image cannot be empty'')
      else if g_Tag grafana = [] then
        Some (Errorf ''grafana tag cannot be empty'')
      else if g_AdminPassword grafana = [] then
        Some (Errorf ''grafana admin password cannot be empty'')
      else validateDatasources 0 (g_Datasources grafana))"

definition validateMonitorStack :: "MonitorStack \<Rightarrow> error option" where
  "validateMonitorStack monitorStack =
     (if \<not> p_Enabled (Prometheus (ms_Spec monitorStack)) \<and>
         \<not> g_Enabled (Grafana (ms_Spec monitorStack)) then
        Some (Errorf ''at least one component (Prometheus or Grafana) must be enabled'')
      else
        (case (if p_Enabled (Prometheus (ms_Spec monitorStack))
               then validatePrometheusConfig monitorStack else None) of
           Some err \<Rightarrow> Some (Wrap ''prometheus configuration error: '' err)
         | None \<Rightarrow>
            (case (if g_Enabled (Grafana (ms_Spec monitorStack))
                   then validateGrafanaConfig monitorStack else None) of
               Some err \<Rightarrow> Some (Wrap ''grafana configuration error: '' err)
             | None \<Rightarrow> None)))"

section \<open>Defaulting (helpers.go)\<close>

text \<open>
  Each statement \<open>if x.F == zero { x.F = d }\<close> of the source is one update of the
  field \<open>F\<close>, in the order of the source.
\<close>

definition setPrometheusDefaults :: "PrometheusSpec \<Rightarrow> PrometheusSpec" where
  "setPrometheusDefaults prometheus =
     (let prometheus =
            p_Image_update (\<lambda>v. if v = [] then ''prom/prometheus'' else v) prometheus;
          prometheus = p_Tag_update (\<lambda>v. if v = [] then ''latest'' else v) prometheus;
          prometheus =
            p_Service_update (sv_Port_update (\<lambda>v. if v = 0 then 9090 else v)) prometheus;
          prometheus =
            p_Service_update (sv_Type_update (\<lambda>v. if v = [] then ''ClusterIP'' else v))
              prometheus;
          prometheus = p_Retention_update (\<lambda>v. if v = [] then ''15d'' else v) prometheus;
          prometheus =
            p_Resources_update
              (rq_Requests_update (rl_CPU_update (\<lambda>v. if v = [] then ''100m'' else v)))
              prometheus;
          prometheus =
            p_Resources_update
              (rq_Requests_update (rl_Memory_update (\<lambda>v. if v = [] then ''256Mi'' else v)))
              prometheus
      in prometheus)"

definition setGrafanaDefaults :: "GrafanaSpec \<Rightarrow> GrafanaSpec" where
  "setGrafanaDefaults grafana =
     (let grafana = g_Image_update (\<lambda>v. if v = [] then ''grafana/grafana'' else v) grafana;
          grafana = g_Tag_update (\<lambda>v. if v = [] then ''latest'' else v) grafana;
          grafana =
            g_Service_update (sv_Port_update (\<lambda>v. if v = 0 then 3000 else v)) grafana;
          grafana =
            g_Service_update (sv_Type_update (\<lambda>v. if v = [] then ''ClusterIP'' else v))
              grafana;
          grafana = g_AdminPassword_update (\<lambda>v. if v = [] then ''admin'' else v) grafana;
          grafana =
            g_Resources_update
              (rq_Requests_update (rl_CPU_update (\<lambda>v. if v = [] then ''100m'' else v)))
              grafana;
          grafana =
            g_Resources_update
              (rq_Requests_update (rl_Memory_update (\<lambda>v. if v = [] then ''128Mi'' else v)))
              grafana
      in grafana)"

definition setDefaultValues :: "MonitorStack \<Rightarrow> MonitorStack" where
  "setDefaultValues monitorStack =
     (let monitorStack =
            (if p_Enabled (Prometheus (ms_Spec monitorStack))
             then ms_Spec_update (Prometheus_update setPrometheusDefaults) monitorStack
             else monitorStack);
          monitorStack =
            (if g_Enabled (Grafana (ms_Spec monitorStack))
             then ms_Spec_update (Grafana_update setGrafanaDefaults) monitorStack
             else monitorStack)
      in monitorStack)"

text \<open>The Go zero values of the API structs: what a manifest that leaves a field out
  decodes to.\<close>

definition zeroResourceList :: ResourceList where
  "zeroResourceList = \<lparr>rl_CPU = [], rl_Memory = []\<rparr>"

definition zeroResourceRequirements :: ResourceRequirements where
  "zeroResourceRequirements = \<lparr>rq_Limits = zeroResourceList, rq_Requests = zeroResourceList\<rparr>"

definition zeroServiceSpec :: ServiceSpec where
  "zeroServiceSpec = \<lparr>sv_Type = [], sv_Port = 0, sv_NodePort = 0, sv_Labels = Map.empty\<rparr>"

definition zeroPrometheusSpec :: PrometheusSpec where
  "zeroPrometheusSpec =
     \<lparr>p_Enabled = False, p_Image = [], p_Tag = [], p_Resources = zeroResourceRequirements,
      p_Storage = \<lparr>sto_Size = [], sto_StorageClass = []\<rparr>, p_Service = zeroServiceSpec,
      p_Config = [], p_Retention = []\<rparr>"

definition zeroGrafanaSpec :: GrafanaSpec where
  "zeroGrafanaSpec =
     \<lparr>g_Enabled = False, g_Image = [], g_Tag = [], g_Resources = zeroResourceRequirements,
      g_Service = zeroServiceSpec, g_AdminPassword = [], g_Datasources = [],
      g_Dashboards = []\<rparr>"

definition zeroComponentStatus :: ComponentStatus where
  "zeroComponentStatus = \<lparr>cs_Ready = False, cs_Replicas = 0, cs_Message = [], cs_Endpoint = []\<rparr>"

definition zeroMonitorStackStatus :: MonitorStackStatus where
  "zeroMonitorStackStatus =
     \<lparr>Phase = [], Message = [], PrometheusStatus = zeroComponentStatus,
      GrafanaStatus = zeroComponentStatus, LastUpdated = 0, Conditions = []\<rparr>"

definition zeroMonitorStack :: MonitorStack where
  "zeroMonitorStack =
     \<lparr>ms_Name = [], ms_Namespace = [], ms_DeletionTimestamp = None, ms_Finalizers = [],
      ms_Spec = \<lparr>Prometheus = zeroPrometheusSpec, Grafana = zeroGrafanaSpec,
                 spec_Namespace = [], spec_Labels = Map.empty\<rparr>,
      ms_Status = zeroMonitorStackStatus\<rparr>"

section \<open>Child resources\<close>

text \<open>
  The Kubernetes objects the engine builds, with the fields its builders fill in.
  \<open>om_Controller\<close> is the controller owner reference (the name of the owning stack).
  A \<open>resource.Quantity\<close> is kept as the string it was parsed from.
\<close>

record ObjectMeta =
  om_Name :: string
  om_Namespace :: string
  om_Labels :: "string \<rightharpoonup> string"
  om_Controller :: "string option"

record ContainerPort =
  cp_Name :: string
  cp_ContainerPort :: int
  cp_Protocol :: string

record VolumeMount =
  vm_Name :: string
  vm_MountPath :: string
  vm_ReadOnly :: bool

record Probe =
  pb_Path :: string
  pb_Port :: int
  pb_InitialDelaySeconds :: int
  pb_PeriodSeconds :: int
  pb_TimeoutSeconds :: int
  pb_FailureThreshold :: int

record EnvVar =
  ev_Name :: string
  ev_Value :: string

datatype VolumeSource =
    ConfigMapVolumeSource string
  | PersistentVolumeClaimVolumeSource string
  | EmptyDirVolumeSource

record Volume =
  vol_Name :: string
  vol_VolumeSource :: VolumeSource

record K8sResourceRequirements =
  kr_Requests :: "string \<rightharpoonup> string"
  kr_Limits :: "string \<rightharpoonup> string"

record Container =
  ct_Name :: string
  ct_Image :: string
  ct_Ports :: "ContainerPort list"
  ct_Args :: "string list"
  ct_Env :: "EnvVar list"
  ct_VolumeMounts :: "VolumeMount list"
  ct_Resources :: K8sResourceRequirements
  ct_LivenessProbe :: Probe
  ct_ReadinessProbe :: Probe

record PodSecurityContext =
  psc_RunAsNonRoot :: bool
  psc_RunAsUser :: int
  psc_FSGroup :: int

record DeploymentSpec =
  dps_Replicas :: int
  dps_Selector :: "string \<rightharpoonup> string"
  dps_TemplateLabels :: "string \<rightharpoonup> string"
  dps_SecurityContext :: PodSecurityContext
  dps_Containers :: "Container list"
  dps_Volumes :: "Volume list"

record DeploymentStatus =
  dst_Replicas :: int
  dst_ReadyReplicas :: int

record Deployment =
  dep_Meta :: ObjectMeta
  dep_Spec :: DeploymentSpec
  dep_Status :: DeploymentStatus

record ServicePort =
  sp_Name :: string
  sp_Port :: int
  sp_TargetPort :: int
  sp_Protocol :: string
  sp_NodePort :: int

record K8sServiceSpec =
  ks_Type :: string
  ks_Selector :: "string \<rightharpoonup> string"
  ks_Ports :: "ServicePort list"

record Service =
  svc_Meta :: ObjectMeta
  svc_Spec :: K8sServiceSpec

record ConfigMap =
  cm_Meta :: ObjectMeta
  cm_Data :: "string \<rightharpoonup> string"

record PersistentVolumeClaim =
  pvc_Meta :: ObjectMeta
  pvc_AccessModes :: "string list"
  pvc_Requests :: "string \<rightharpoonup> string"
  pvc_StorageClassName :: "string option"

section \<open>The reconciler and the library calls it relies on\<close>

text \<open>
  The receiver of every method.  Its client is the cluster state that the methods below
  pass along; of its scheme only one fact matters, whether the MonitorStack kind is
  registered (\<open>SetControllerReference\<close> fails otherwise).  Two library facts are taken
  as parameters alongside: which strings \<open>resource.MustParse\<close> accepts, and the text
  of the default configuration literal in \<open>getPrometheusConfig\<close>.
\<close>

record MonitorStackReconciler =
  Scheme :: bool
  quantityOK :: "string \<Rightarrow> bool"
  defaultPrometheusConfig :: string

text \<open>A call either returns or panics; a panic unwinds through every caller.\<close>

datatype 'a outcome = Return 'a | Panic string

definition MustParse :: "MonitorStackReconciler \<Rightarrow> string \<Rightarrow> string outcome" where
  "MustParse r s = (if quantityOK r s then Return s else Panic (''cannot parse '' @ s))"

definition SetControllerReference ::
  "MonitorStackReconciler \<Rightarrow> MonitorStack \<Rightarrow> ObjectMeta \<Rightarrow> error + ObjectMeta" where
  "SetControllerReference r owner meta =
     (if \<not> Scheme r then Inl (Errorf ''no kind is registered for the type v1.MonitorStack'')
      else if ms_Namespace owner \<noteq> [] \<and> om_Namespace meta \<noteq> ms_Namespace owner then
        Inl (Errorf ''cross-namespace owner references are disallowed'')
      else (case om_Controller meta of
              Some other \<Rightarrow>
                if other = ms_Name owner then Inr meta
                else Inl (Errorf ''Object is already owned by another controller'')
            | None \<Rightarrow> Inr (meta\<lparr>om_Controller := Some (ms_Name owner)\<rparr>)))"

definition ContainsFinalizer :: "MonitorStack \<Rightarrow> string \<Rightarrow> bool" where
  "ContainsFinalizer o' finalizer = (finalizer \<in> set (ms_Finalizers o'))"

definition AddFinalizer :: "MonitorStack \<Rightarrow> string \<Rightarrow> MonitorStack" where
  "AddFinalizer o' finalizer =
     (if finalizer \<in> set (ms_Finalizers o') then o'
      else o'\<lparr>ms_Finalizers := ms_Finalizers o' @ [finalizer]\<rparr>)"

definition RemoveFinalizer :: "MonitorStack \<Rightarrow> string \<Rightarrow> MonitorStack" where
  "RemoveFinalizer o' finalizer =
     o'\<lparr>ms_Finalizers := filter (\<lambda>f. f \<noteq> finalizer) (ms_Finalizers o')\<rparr>"

definition finalizerName :: string where
  "finalizerName = ''monitoring.cillian.website/finalizer''"

section \<open>Labels and configuration text (helpers.go)\<close>

definition getLabels :: "MonitorStack \<Rightarrow> string \<Rightarrow> (string \<rightharpoonup> string)" where
  "getLabels monitorStack component =
     [''app.kubernetes.io/name'' \<mapsto> ''monitor-operator'',
      ''app.kubernetes.io/instance'' \<mapsto> ms_Name monitorStack,
      ''app.kubernetes.io/component'' \<mapsto> component,
      ''app.kubernetes.io/managed-by'' \<mapsto> ''monitor-operator'',
      ''app.kubernetes.io/part-of'' \<mapsto> ''monitoring-stack'']
     ++ spec_Labels (ms_Spec monitorStack)"

definition getPrometheusConfig :: "MonitorStackReconciler \<Rightarrow> MonitorStack \<Rightarrow> string" where
  "getPrometheusConfig r monitorStack =
     (if p_Config (Prometheus (ms_Spec monitorStack)) \<noteq> []
      then p_Config (Prometheus (ms_Spec monitorStack))
      else defaultPrometheusConfig r)"

text \<open>The loop of \<open>buildGrafanaDatasourcesConfig\<close>, with the running index \<open>i\<close>;
  \<open>%t\<close> prints a boolean.\<close>

definition show_bool :: "bool \<Rightarrow> string" where
  "show_bool b = (if b then ''true'' else ''false'')"

fun datasourceEntries :: "nat \<Rightarrow> DatasourceSpec list \<Rightarrow> string" where
  "datasourceEntries i [] = []"
| "datasourceEntries i (ds # rest) =
     (let isDefault = (i = 0 \<and> dsrc_Type ds = ''prometheus'') in
      ''\<newline>  - name: '' @ dsrc_Name ds @
      ''\<newline>    type: '' @ dsrc_Type ds @
      ''\<newline>    url: '' @ dsrc_URL ds @
      ''\<newline>    access: proxy'' @
      ''\<newline>    isDefault: '' @ show_bool isDefault) @
     datasourceEntries (Suc i) rest"

definition buildGrafanaDatasourcesConfig :: "MonitorStack \<Rightarrow> string" where
  "buildGrafanaDatasourcesConfig monitorStack =
     ''apiVersion: 1\<newline>datasources:'' @
     datasourceEntries 0 (g_Datasources (Grafana (ms_Spec monitorStack)))"

section \<open>Resource builders (helpers.go)\<close>

text \<open>One block of \<open>buildResourceRequirements\<close>: the list stays nil when both
  quantities are empty, and each non-empty quantity is parsed, CPU first.\<close>

definition buildResourceList ::
  "MonitorStackReconciler \<Rightarrow> ResourceList \<Rightarrow> (string \<rightharpoonup> string) outcome" where
  "buildResourceList r rl =
     (if rl_CPU rl \<noteq> [] \<or> rl_Memory rl \<noteq> [] then
        (case (if rl_CPU rl \<noteq> []
               then (case MustParse r (rl_CPU rl) of
                       Panic m \<Rightarrow> Panic m
                     | Return q \<Rightarrow> Return [''cpu'' \<mapsto> q])
               else Return Map.empty) of
           Panic m \<Rightarrow> Panic m
         | Return l \<Rightarrow>
             (if rl_Memory rl \<noteq> []
              then (case MustParse r (rl_Memory rl) of
                      Panic m \<Rightarrow> Panic m
                    | Return q \<Rightarrow> Return (l(''memory'' \<mapsto> q)))
              else Return l))
      else Return Map.empty)"

definition buildResourceRequirements ::
  "MonitorStackReconciler \<Rightarrow> ResourceRequirements \<Rightarrow> K8sResourceRequirements outcome" where
  "buildResourceRequirements r resources =
     (case buildResourceList r (rq_Requests resources) of
        Panic m \<Rightarrow> Panic m
      | Return requests \<Rightarrow>
          (case buildResourceList r (rq_Limits resources) of
             Panic m \<Rightarrow> Panic m
           | Return limits \<Rightarrow> Return \<lparr>kr_Requests = requests, kr_Limits = limits\<rparr>))"

definition buildPrometheusArgs :: "MonitorStack \<Rightarrow> string list" where
  "buildPrometheusArgs monitorStack =
     (let args = [''--config.file=/etc/prometheus/prometheus.yml'',
                  ''--storage.tsdb.path=/prometheus'',
                  ''--web.console.libraries=/etc/prometheus/console_libraries'',
                  ''--web.console.templates=/etc/prometheus/consoles'',
                  ''--web.enable-lifecycle'',
                  ''--web.enable-admin-api'']
      in if p_Retention (Prometheus (ms_Spec monitorStack)) \<noteq> []
         then args @ [''--storage.tsdb.retention.time='' @
                      p_Retention (Prometheus (ms_Spec monitorStack))]
         else args)"

definition buildGrafanaEnv :: "MonitorStack \<Rightarrow> EnvVar list" where
  "buildGrafanaEnv monitorStack =
     [\<lparr>ev_Name = ''GF_SECURITY_ADMIN_PASSWORD'',
       ev_Value = g_AdminPassword (Grafana (ms_Spec monitorStack))\<rparr>,
      \<lparr>ev_Name = ''GF_USERS_ALLOW_SIGN_UP'', ev_Value = ''false''\<rparr>,
      \<lparr>ev_Name = ''GF_PATHS_DATA'', ev_Value = ''/var/lib/grafana''\<rparr>,
      \<lparr>ev_Name = ''GF_PATHS_LOGS'', ev_Value = ''/var/log/grafana''\<rparr>,
      \<lparr>ev_Name = ''GF_PATHS_PLUGINS'', ev_Value = ''/var/lib/grafana/plugins''\<rparr>,
      \<lparr>ev_Name = ''GF_PATHS_PROVISIONING'', ev_Value = ''/etc/grafana/provisioning''\<rparr>]"

text \<open>Appends to the mounts of container 0 and to the volumes; the builders always
  give the deployment one container.\<close>

definition addVolume :: "Deployment \<Rightarrow> VolumeMount \<Rightarrow> Volume \<Rightarrow> Deployment" where
  "addVolume deployment mount volume =
     deployment\<lparr>dep_Spec := (dep_Spec deployment)
       \<lparr>dps_Containers :=
          (case dps_Containers (dep_Spec deployment) of
             [] \<Rightarrow> []
           | c # cs \<Rightarrow> c\<lparr>ct_VolumeMounts := ct_VolumeMounts c @ [mount]\<rparr> # cs),
        dps_Volumes := dps_Volumes (dep_Spec deployment) @ [volume]\<rparr>\<rparr>"

definition addPrometheusDataVolume :: "Deployment \<Rightarrow> MonitorStack \<Rightarrow> Deployment" where
  "addPrometheusDataVolume deployment monitorStack =
     (let dataVolumeMount =
            \<lparr>vm_Name = ''data'', vm_MountPath = ''/prometheus'', vm_ReadOnly = False\<rparr>;
          dataVolume =
            (if sto_Size (p_Storage (Prometheus (ms_Spec monitorStack))) \<noteq> [] then
               \<lparr>vol_Name = ''data'',
                vol_VolumeSource =
                  PersistentVolumeClaimVolumeSource (getPrometheusPVCName monitorStack)\<rparr>
             else \<lparr>vol_Name = ''data'', vol_VolumeSource = EmptyDirVolumeSource\<rparr>)
      in addVolume deployment dataVolumeMount dataVolume)"

definition buildPrometheusDeployment ::
  "MonitorStackReconciler \<Rightarrow> MonitorStack \<Rightarrow> Deployment outcome" where
  "buildPrometheusDeployment r monitorStack =
     (let labels = getLabels monitorStack ''prometheus''; replicas = 1 in
      case buildResourceRequirements r (p_Resources (Prometheus (ms_Spec monitorStack))) of
        Panic m \<Rightarrow> Panic m
      | Return resources \<Rightarrow>
          (let deployment =
             \<lparr>dep_Meta = \<lparr>om_Name = getPrometheusName monitorStack,
                          om_Namespace = ms_Namespace monitorStack,
                          om_Labels = labels, om_Controller = None\<rparr>,
              dep_Spec =
                \<lparr>dps_Replicas = replicas, dps_Selector = labels, dps_TemplateLabels = labels,
                 dps_SecurityContext =
                   \<lparr>psc_RunAsNonRoot = True, psc_RunAsUser = 65534, psc_FSGroup = 65534\<rparr>,
                 dps_Containers =
                   [\<lparr>ct_Name = ''prometheus'',
                     ct_Image = p_Image (Prometheus (ms_Spec monitorStack)) @ '':'' @
                                p_Tag (Prometheus (ms_Spec monitorStack)),
                     ct_Ports = [\<lparr>cp_Name = ''web'', cp_ContainerPort = 9090,
                                  cp_Protocol = ''TCP''\<rparr>],
                     ct_Args = buildPrometheusArgs monitorStack,
                     ct_Env = [],
                     ct_VolumeMounts =
                       [\<lparr>vm_Name = ''config'', vm_MountPath = ''/etc/prometheus'',
                         vm_ReadOnly = True\<rparr>],
                     ct_Resources = resources,
                     ct_LivenessProbe =
                       \<lparr>pb_Path = ''/-/healthy'', pb_Port = 9090, pb_InitialDelaySeconds = 30,
                        pb_PeriodSeconds = 10, pb_TimeoutSeconds = 5, pb_FailureThreshold = 3\<rparr>,
                     ct_ReadinessProbe =
                       \<lparr>pb_Path = ''/-/ready'', pb_Port = 9090, pb_InitialDelaySeconds = 5,
                        pb_PeriodSeconds = 5, pb_TimeoutSeconds = 3, pb_FailureThreshold = 3\<rparr>\<rparr>],
                 dps_Volumes =
                   [\<lparr>vol_Name = ''config'',
                     vol_VolumeSource =
                       ConfigMapVolumeSource (getPrometheusConfigMapName monitorStack)\<rparr>]\<rparr>,
              dep_Status = \<lparr>dst_Replicas = 0, dst_ReadyReplicas = 0\<rparr>\<rparr>
           in Return (addPrometheusDataVolume deployment monitorStack)))"

text \<open>
  In \<open>buildPrometheusService\<close> and \<open>buildGrafanaService\<close> the labels of the object and
  the selector are one Go map, so the user's service labels, written into
  \<open>service.Labels\<close>, show in the selector as well.
\<close>

definition buildPrometheusService :: "MonitorStack \<Rightarrow> Service" where
  "buildPrometheusService monitorStack =
     (let labels = getLabels monitorStack ''prometheus'' ++
                   sv_Labels (p_Service (Prometheus (ms_Spec monitorStack)));
          port = \<lparr>sp_Name = ''web'',
                  sp_Port = sv_Port (p_Service (Prometheus (ms_Spec monitorStack))),
                  sp_TargetPort = 9090, sp_Protocol = ''TCP'', sp_NodePort = 0\<rparr>;
          port = (if sv_Type (p_Service (Prometheus (ms_Spec monitorStack))) = ''NodePort'' \<and>
                     sv_NodePort (p_Service (Prometheus (ms_Spec monitorStack))) > 0
                  then port\<lparr>sp_NodePort :=
                              sv_NodePort (p_Service (Prometheus (ms_Spec monitorStack)))\<rparr>
                  else port)
      in \<lparr>svc_Meta = \<lparr>om_Name = getPrometheusServiceName monitorStack,
                       om_Namespace = ms_Namespace monitorStack,
                       om_Labels = labels, om_Controller = None\<rparr>,
          svc_Spec = \<lparr>ks_Type = sv_Type (p_Service (Prometheus (ms_Spec monitorStack))),
                       ks_Selector = labels, ks_Ports = [port]\<rparr>\<rparr>)"

definition addGrafanaDatasourceVolume :: "Deployment \<Rightarrow> MonitorStack \<Rightarrow> Deployment" where
  "addGrafanaDatasourceVolume deployment monitorStack =
     (let datasourceVolumeMount =
            \<lparr>vm_Name = ''datasources'',
             vm_MountPath = ''/etc/grafana/provisioning/datasources'', vm_ReadOnly = True\<rparr>;
          datasourceVolume =
            \<lparr>vol_Name = ''datasources'',
             vol_VolumeSource =
               ConfigMapVolumeSource (getGrafanaDatasourcesConfigMapName monitorStack)\<rparr>
      in addVolume deployment datasourceVolumeMount datasourceVolume)"

definition buildGrafanaDeployment ::
  "MonitorStackReconciler \<Rightarrow> MonitorStack \<Rightarrow> Deployment outcome" where
  "buildGrafanaDeployment r monitorStack =
     (let labels = getLabels monitorStack ''grafana''; replicas = 1 in
      case buildResourceRequirements r (g_Resources (Grafana (ms_Spec monitorStack))) of
        Panic m \<Rightarrow> Panic m
      | Return resources \<Rightarrow>
          (let deployment =
             \<lparr>dep_Meta = \<lparr>om_Name = getGrafanaName monitorStack,
                          om_Namespace = ms_Namespace monitorStack,
                          om_Labels = labels, om_Controller = None\<rparr>,
              dep_Spec =
                \<lparr>dps_Replicas = replicas, dps_Selector = labels, dps_TemplateLabels = labels,
                 dps_SecurityContext =
                   \<lparr>psc_RunAsNonRoot = True, psc_RunAsUser = 472, psc_FSGroup = 472\<rparr>,
                 dps_Containers =
                   [\<lparr>ct_Name = ''grafana'',
                     ct_Image = g_Image (Grafana (ms_Spec monitorStack)) @ '':'' @
                                g_Tag (Grafana (ms_Spec monitorStack)),
                     ct_Ports = [\<lparr>cp_Name = ''grafana'', cp_ContainerPort = 3000,
                                  cp_Protocol = ''TCP''\<rparr>],
                     ct_Args = [],
                     ct_Env = buildGrafanaEnv monitorStack,
                     ct_VolumeMounts =
                       [\<lparr>vm_Name = ''grafana-storage'', vm_MountPath = ''/var/lib/grafana'',
                         vm_ReadOnly = False\<rparr>],
                     ct_Resources = resources,
                     ct_LivenessProbe =
                       \<lparr>pb_Path = ''/api/health'', pb_Port = 3000, pb_InitialDelaySeconds = 30,
                        pb_PeriodSeconds = 10, pb_TimeoutSeconds = 5, pb_FailureThreshold = 3\<rparr>,
                     ct_ReadinessProbe =
                       \<lparr>pb_Path = ''/api/health'', pb_Port = 3000, pb_InitialDelaySeconds = 5,
                        pb_PeriodSeconds = 5, pb_TimeoutSeconds = 3, pb_FailureThreshold = 3\<rparr>\<rparr>],
                 dps_Volumes =
                   [\<lparr>vol_Name = ''grafana-storage'',
                     vol_VolumeSource = EmptyDirVolumeSource\<rparr>]\<rparr>,
              dep_Status = \<lparr>dst_Replicas = 0, dst_ReadyReplicas = 0\<rparr>\<rparr>
           in Return (if length (g_Datasources (Grafana (ms_Spec monitorStack))) > 0
                      then addGrafanaDatasourceVolume deployment monitorStack
                      else deployment)))"

definition buildGrafanaService :: "MonitorStack \<Rightarrow> Service" where
  "buildGrafanaService monitorStack =
     (let labels = getLabels monitorStack ''grafana'' ++
                   sv_Labels (g_Service (Grafana (ms_Spec monitorStack)));
          port = \<lparr>sp_Name = ''grafana'',
                  sp_Port = sv_Port (g_Service (Grafana (ms_Spec monitorStack))),
                  sp_TargetPort = 3000, sp_Protocol = ''TCP'', sp_NodePort = 0\<rparr>;
          port = (if sv_Type (g_Service (Grafana (ms_Spec monitorStack))) = ''NodePort'' \<and>
                     sv_NodePort (g_Service (Grafana (ms_Spec monitorStack))) > 0
                  then port\<lparr>sp_NodePort :=
                              sv_NodePort (g_Service (Grafana (ms_Spec monitorStack)))\<rparr>
                  else port)
      in \<lparr>svc_Meta = \<lparr>om_Name = getGrafanaServiceName monitorStack,
                       om_Namespace = ms_Namespace monitorStack,
                       om_Labels = labels, om_Controller = None\<rparr>,
          svc_Spec = \<lparr>ks_Type = sv_Type (g_Service (Grafana (ms_Spec monitorStack))),
                       ks_Selector = labels, ks_Ports = [port]\<rparr>\<rparr>)"

section \<open>The cluster behind the client\<close>

text \<open>
  The API server as the reconciler's client sees it: one store per kind, keyed by
  (namespace, name).  Every request is logged in \<open>Calls\<close>.  \<open>Faults\<close> is the schedule
  of injected failures: each request consumes its head, and fails with that error when
  the head holds one, whatever the store contains; when the schedule is used up,
  requests fail only for what the store holds (not found, already exists).
  \<open>Clock\<close> is what \<open>metav1.Now()\<close> reads.
\<close>

datatype Kind = KMonitorStack | KDeployment | KService | KConfigMap | KPersistentVolumeClaim

datatype Verb = VGet | VCreate | VUpdate | VDelete | VStatusUpdate

type_synonym NamespacedName = "string \<times> string"

type_synonym ApiCall = "Verb \<times> Kind \<times> NamespacedName"

record World =
  MonitorStacks :: "NamespacedName \<rightharpoonup> MonitorStack"
  Deployments :: "NamespacedName \<rightharpoonup> Deployment"
  Services :: "NamespacedName \<rightharpoonup> Service"
  ConfigMaps :: "NamespacedName \<rightharpoonup> ConfigMap"
  PersistentVolumeClaims :: "NamespacedName \<rightharpoonup> PersistentVolumeClaim"
  Faults :: "error option list"
  Calls :: "ApiCall list"
  Clock :: nat

definition request :: "ApiCall \<Rightarrow> World \<Rightarrow> error option \<times> World" where
  "request c w =
     (case Faults w of
        [] \<Rightarrow> (None, w\<lparr>Calls := Calls w @ [c]\<rparr>)
      | f # fs \<Rightarrow> (f, w\<lparr>Faults := fs, Calls := Calls w @ [c]\<rparr>))"

definition notFound :: error where
  "notFound = StatusError NotFound ''not found''"

definition alreadyExists :: error where
  "alreadyExists = StatusError AlreadyExists ''already exists''"

definition metaKey :: "ObjectMeta \<Rightarrow> NamespacedName" where
  "metaKey m = (om_Namespace m, om_Name m)"

definition stackKey :: "MonitorStack \<Rightarrow> NamespacedName" where
  "stackKey m = (ms_Namespace m, ms_Name m)"

subsection \<open>MonitorStack: Get, Update, Status().Update\<close>

definition GetMonitorStack :: "NamespacedName \<Rightarrow> World \<Rightarrow> (error + MonitorStack) \<times> World" where
  "GetMonitorStack key w =
     (case request (VGet, KMonitorStack, key) w of
        (Some err, w') \<Rightarrow> (Inl err, w')
      | (None, w') \<Rightarrow>
          (case MonitorStacks w' key of
             None \<Rightarrow> (Inl notFound, w')
           | Some obj \<Rightarrow> (Inr obj, w')))"

text \<open>\<open>Update\<close> writes metadata and spec and leaves the stored status (a subresource)
  alone.  An object marked for deletion is removed by the server once its last finalizer
  is gone.\<close>

definition UpdateMonitorStack :: "MonitorStack \<Rightarrow> World \<Rightarrow> error option \<times> World" where
  "UpdateMonitorStack obj w =
     (case request (VUpdate, KMonitorStack, stackKey obj) w of
        (Some err, w') \<Rightarrow> (Some err, w')
      | (None, w') \<Rightarrow>
          (case MonitorStacks w' (stackKey obj) of
             None \<Rightarrow> (Some notFound, w')
           | Some old \<Rightarrow>
               (if ms_DeletionTimestamp old \<noteq> None \<and> ms_Finalizers obj = [] then
                  (None, w'\<lparr>MonitorStacks := (MonitorStacks w')(stackKey obj := None)\<rparr>)
                else
                  (None, w'\<lparr>MonitorStacks := (MonitorStacks w')
                     (stackKey obj \<mapsto> obj\<lparr>ms_Status := ms_Status old,
                                             ms_DeletionTimestamp := ms_DeletionTimestamp old\<rparr>)\<rparr>))))"

definition StatusUpdate :: "MonitorStack \<Rightarrow> World \<Rightarrow> error option \<times> World" where
  "StatusUpdate obj w =
     (case request (VStatusUpdate, KMonitorStack, stackKey obj) w of
        (Some err, w') \<Rightarrow> (Some err, w')
      | (None, w') \<Rightarrow>
          (case MonitorStacks w' (stackKey obj) of
             None \<Rightarrow> (Some notFound, w')
           | Some old \<Rightarrow>
               (None, w'\<lparr>MonitorStacks := (MonitorStacks w')
                  (stackKey obj \<mapsto> old\<lparr>ms_Status := ms_Status obj\<rparr>)\<rparr>)))"

subsection \<open>Deployments\<close>

definition GetDeployment :: "NamespacedName \<Rightarrow> World \<Rightarrow> (error + Deployment) \<times> World" where
  "GetDeployment key w =
     (case request (VGet, KDeployment, key) w of
        (Some err, w') \<Rightarrow> (Inl err, w')
      | (None, w') \<Rightarrow>
          (case Deployments w' key of
             None \<Rightarrow> (Inl notFound, w')
           | Some obj \<Rightarrow> (Inr obj, w')))"

definition CreateDeployment :: "Deployment \<Rightarrow> World \<Rightarrow> error option \<times> World" where
  "CreateDeployment obj w =
     (case request (VCreate, KDeployment, metaKey (dep_Meta obj)) w of
        (Some err, w') \<Rightarrow> (Some err, w')
      | (None, w') \<Rightarrow>
          (case Deployments w' (metaKey (dep_Meta obj)) of
             Some old \<Rightarrow> (Some alreadyExists, w')
           | None \<Rightarrow>
               (None, w'\<lparr>Deployments := (Deployments w')(metaKey (dep_Meta obj) \<mapsto> obj)\<rparr>)))"

text \<open>The status of a deployment is written by the platform only: \<open>Update\<close> keeps
  the stored one.\<close>

definition UpdateDeployment :: "Deployment \<Rightarrow> World \<Rightarrow> error option \<times> World" where
  "UpdateDeployment obj w =
     (case request (VUpdate, KDeployment, metaKey (dep_Meta obj)) w of
        (Some err, w') \<Rightarrow> (Some err, w')
      | (None, w') \<Rightarrow>
          (case Deployments w' (metaKey (dep_Meta obj)) of
             None \<Rightarrow> (Some notFound, w')
           | Some old \<Rightarrow>
               (None, w'\<lparr>Deployments := (Deployments w')
                  (metaKey (dep_Meta obj) \<mapsto> obj\<lparr>dep_Status := dep_Status old\<rparr>)\<rparr>)))"

definition DeleteDeployment :: "Deployment \<Rightarrow> World \<Rightarrow> error option \<times> World" where
  "DeleteDeployment obj w =
     (case request (VDelete, KDeployment, metaKey (dep_Meta obj)) w of
        (Some err, w') \<Rightarrow> (Some err, w')
      | (None, w') \<Rightarrow>
          (case Deployments w' (metaKey (dep_Meta obj)) of
             None \<Rightarrow> (Some notFound, w')
           | Some old \<Rightarrow>
               (None, w'\<lparr>Deployments := (Deployments w')(metaKey (dep_Meta obj) := None)\<rparr>)))"

subsection \<open>Services\<close>

definition GetService :: "NamespacedName \<Rightarrow> World \<Rightarrow> (error + Service) \<times> World" where
  "GetService key w =
     (case request (VGet, KService, key) w of
        (Some err, w') \<Rightarrow> (Inl err, w')
      | (None, w') \<Rightarrow>
          (case Services w' key of
             None \<Rightarrow> (Inl notFound, w')
           | Some obj \<Rightarrow> (Inr obj, w')))"

definition CreateService :: "Service \<Rightarrow> World \<Rightarrow> error option \<times> World" where
  "CreateService obj w =
     (case request (VCreate, KService, metaKey (svc_Meta obj)) w of
        (Some err, w') \<Rightarrow> (Some err, w')
      | (None, w') \<Rightarrow>
          (case Services w' (metaKey (svc_Meta obj)) of
             Some old \<Rightarrow> (Some alreadyExists, w')
           | None \<Rightarrow>
               (None, w'\<lparr>Services := (Services w')(metaKey (svc_Meta obj) \<mapsto> obj)\<rparr>)))"

definition UpdateService :: "Service \<Rightarrow> World \<Rightarrow> error option \<times> World" where
  "UpdateService obj w =
     (case request (VUpdate, KService, metaKey (svc_Meta obj)) w of
        (Some err, w') \<Rightarrow> (Some err, w')
      | (None, w') \<Rightarrow>
          (case Services w' (metaKey (svc_Meta obj)) of
             None \<Rightarrow> (Some notFound, w')
           | Some old \<Rightarrow>
               (None, w'\<lparr>Services := (Services w')(metaKey (svc_Meta obj) \<mapsto> obj)\<rparr>)))"

definition DeleteService :: "Service \<Rightarrow> World \<Rightarrow> error option \<times> World" where
  "DeleteService obj w =
     (case request (VDelete, KService, metaKey (svc_Meta obj)) w of
        (Some err, w') \<Rightarrow> (Some err, w')
      | (None, w') \<Rightarrow>
          (case Services w' (metaKey (svc_Meta obj)) of
             None \<Rightarrow> (Some notFound, w')
           | Some old \<Rightarrow>
               (None, w'\<lparr>Services := (Services w')(metaKey (svc_Meta obj) := None)\<rparr>)))"

subsection \<open>ConfigMaps\<close>

definition GetConfigMap :: "NamespacedName \<Rightarrow> World \<Rightarrow> (error + ConfigMap) \<times> World" where
  "GetConfigMap key w =
     (case request (VGet, KConfigMap, key) w of
        (Some err, w') \<Rightarrow> (Inl err, w')
      | (None, w') \<Rightarrow>
          (case ConfigMaps w' key of
             None \<Rightarrow> (Inl notFound, w')
           | Some obj \<Rightarrow> (Inr obj, w')))"

definition CreateConfigMap :: "ConfigMap \<Rightarrow> World \<Rightarrow> error option \<times> World" where
  "CreateConfigMap obj w =
     (case request (VCreate, KConfigMap, metaKey (cm_Meta obj)) w of
        (Some err, w') \<Rightarrow> (Some err, w')
      | (None, w') \<Rightarrow>
          (case ConfigMaps w' (metaKey (cm_Meta obj)) of
             Some old \<Rightarrow> (Some alreadyExists, w')
           | None \<Rightarrow>
               (None, w'\<lparr>ConfigMaps := (ConfigMaps w')(metaKey (cm_Meta obj) \<mapsto> obj)\<rparr>)))"

definition UpdateConfigMap :: "ConfigMap \<Rightarrow> World \<Rightarrow> error option \<times> World" where
  "UpdateConfigMap obj w =
     (case request (VUpdate, KConfigMap, metaKey (cm_Meta obj)) w of
        (Some err, w') \<Rightarrow> (Some err, w')
      | (None, w') \<Rightarrow>
          (case ConfigMaps w' (metaKey (cm_Meta obj)) of
             None \<Rightarrow> (Some notFound, w')
           | Some old \<Rightarrow>
               (None, w'\<lparr>ConfigMaps := (ConfigMaps w')(metaKey (cm_Meta obj) \<mapsto> obj)\<rparr>)))"

definition DeleteConfigMap :: "ConfigMap \<Rightarrow> World \<Rightarrow> error option \<times> World" where
  "DeleteConfigMap obj w =
     (case request (VDelete, KConfigMap, metaKey (cm_Meta obj)) w of
        (Some err, w') \<Rightarrow> (Some err, w')
      | (None, w') \<Rightarrow>
          (case ConfigMaps w' (metaKey (cm_Meta obj)) of
             None \<Rightarrow> (Some notFound, w')
           | Some old \<Rightarrow>
               (None, w'\<lparr>ConfigMaps := (ConfigMaps w')(metaKey (cm_Meta obj) := None)\<rparr>)))"

subsection \<open>PersistentVolumeClaims\<close>

text \<open>The reconciler calls \<open>Get\<close> and \<open>Create\<close> on claims, and nothing else.\<close>

definition GetPersistentVolumeClaim ::
  "NamespacedName \<Rightarrow> World \<Rightarrow> (error + PersistentVolumeClaim) \<times> World" where
  "GetPersistentVolumeClaim key w =
     (case request (VGet, KPersistentVolumeClaim, key) w of
        (Some err, w') \<Rightarrow> (Inl err, w')
      | (None, w') \<Rightarrow>
          (case PersistentVolumeClaims w' key of
             None \<Rightarrow> (Inl notFound, w')
           | Some obj \<Rightarrow> (Inr obj, w')))"

definition CreatePersistentVolumeClaim ::
  "PersistentVolumeClaim \<Rightarrow> World \<Rightarrow> error option \<times> World" where
  "CreatePersistentVolumeClaim obj w =
     (case request (VCreate, KPersistentVolumeClaim, metaKey (pvc_Meta obj)) w of
        (Some err, w') \<Rightarrow> (Some err, w')
      | (None, w') \<Rightarrow>
          (case PersistentVolumeClaims w' (metaKey (pvc_Meta obj)) of
             Some old \<Rightarrow> (Some alreadyExists, w')
           | None \<Rightarrow>
               (None, w'\<lparr>PersistentVolumeClaims :=
                  (PersistentVolumeClaims w')(metaKey (pvc_Meta obj) \<mapsto> obj)\<rparr>)))"

section \<open>Converging the children (monitorstack_controller.go, helpers.go)\<close>

text \<open>
  A method that returns \<open>error\<close> yields \<open>error option\<close> (\<open>None\<close> is nil) and the
  cluster after its requests; a method that may panic yields an \<open>outcome\<close>.  The stack
  object is passed by pointer in the source: a method that writes to it returns it.
\<close>

definition createPrometheusConfigMap ::
  "MonitorStackReconciler \<Rightarrow> MonitorStack \<Rightarrow> World \<Rightarrow> error option \<times> World" where
  "createPrometheusConfigMap r monitorStack w =
     (let configMap =
            \<lparr>cm_Meta = \<lparr>om_Name = getPrometheusConfigMapName monitorStack,
                        om_Namespace = ms_Namespace monitorStack,
                        om_Labels = getLabels monitorStack ''prometheus'',
                        om_Controller = None\<rparr>,
             cm_Data = [''prometheus.yml'' \<mapsto> getPrometheusConfig r monitorStack]\<rparr>
      in case SetControllerReference r monitorStack (cm_Meta configMap) of
           Inl err \<Rightarrow> (Some err, w)
         | Inr meta \<Rightarrow>
             (let configMap = configMap\<lparr>cm_Meta := meta\<rparr> in
              case GetConfigMap (metaKey (cm_Meta configMap)) w of
                (Inl err, w1) \<Rightarrow>
                  if IsNotFound err then CreateConfigMap configMap w1 else (Some err, w1)
              | (Inr existing, w1) \<Rightarrow>
                  UpdateConfigMap (existing\<lparr>cm_Data := cm_Data configMap\<rparr>) w1))"

definition createPrometheusPVC ::
  "MonitorStackReconciler \<Rightarrow> MonitorStack \<Rightarrow> World \<Rightarrow> error option outcome \<times> World" where
  "createPrometheusPVC r monitorStack w =
     (case MustParse r (sto_Size (p_Storage (Prometheus (ms_Spec monitorStack)))) of
        Panic m \<Rightarrow> (Panic m, w)
      | Return quantity \<Rightarrow>
          (let pvc =
                 \<lparr>pvc_Meta = \<lparr>om_Name = getPrometheusPVCName monitorStack,
                              om_Namespace = ms_Namespace monitorStack,
                              om_Labels = getLabels monitorStack ''prometheus'',
                              om_Controller = None\<rparr>,
                  pvc_AccessModes = [''ReadWriteOnce''],
                  pvc_Requests = [''storage'' \<mapsto> quantity],
                  pvc_StorageClassName = None\<rparr>;
               pvc = (if sto_StorageClass (p_Storage (Prometheus (ms_Spec monitorStack))) \<noteq> []
                      then pvc\<lparr>pvc_StorageClassName :=
                             Some (sto_StorageClass (p_Storage (Prometheus (ms_Spec monitorStack))))\<rparr>
                      else pvc)
           in case SetControllerReference r monitorStack (pvc_Meta pvc) of
                Inl err \<Rightarrow> (Return (Some err), w)
              | Inr meta \<Rightarrow>
                  (let pvc = pvc\<lparr>pvc_Meta := meta\<rparr> in
                   case GetPersistentVolumeClaim (metaKey (pvc_Meta pvc)) w of
                     (Inl err, w1) \<Rightarrow>
                       if IsNotFound err
                       then (case CreatePersistentVolumeClaim pvc w1 of
                               (e, w2) \<Rightarrow> (Return e, w2))
                       else (Return (Some err), w1)
                   | (Inr existing, w1) \<Rightarrow> (Return None, w1))))"

text \<open>The part that \<open>createPrometheusDeployment\<close> and \<open>createGrafanaDeployment\<close>
  share word for word: owner reference, get, then create or update of spec and labels.\<close>

definition applyDeployment ::
  "MonitorStackReconciler \<Rightarrow> MonitorStack \<Rightarrow> Deployment \<Rightarrow> World \<Rightarrow> error option \<times> World" where
  "applyDeployment r monitorStack deployment w =
     (case SetControllerReference r monitorStack (dep_Meta deployment) of
        Inl err \<Rightarrow> (Some err, w)
      | Inr meta \<Rightarrow>
          (let deployment = deployment\<lparr>dep_Meta := meta\<rparr> in
           case GetDeployment (metaKey (dep_Meta deployment)) w of
             (Inl err, w1) \<Rightarrow>
               if IsNotFound err then CreateDeployment deployment w1 else (Some err, w1)
           | (Inr existing, w1) \<Rightarrow>
               UpdateDeployment
                 (existing\<lparr>dep_Spec := dep_Spec deployment,
                            dep_Meta := (dep_Meta existing)
                              \<lparr>om_Labels := om_Labels (dep_Meta deployment)\<rparr>\<rparr>) w1))"

definition createPrometheusDeployment ::
  "MonitorStackReconciler \<Rightarrow> MonitorStack \<Rightarrow> World \<Rightarrow> error option outcome \<times> World" where
  "createPrometheusDeployment r monitorStack w =
     (case buildPrometheusDeployment r monitorStack of
        Panic m \<Rightarrow> (Panic m, w)
      | Return deployment \<Rightarrow>
          (case applyDeployment r monitorStack deployment w of (e, w1) \<Rightarrow> (Return e, w1)))"

definition createGrafanaDeployment ::
  "MonitorStackReconciler \<Rightarrow> MonitorStack \<Rightarrow> World \<Rightarrow> error option outcome \<times> World" where
  "createGrafanaDeployment r monitorStack w =
     (case buildGrafanaDeployment r monitorStack of
        Panic m \<Rightarrow> (Panic m, w)
      | Return deployment \<Rightarrow>
          (case applyDeployment r monitorStack deployment w of (e, w1) \<Rightarrow> (Return e, w1)))"

text \<open>Likewise for the two services: ports, type and labels of the existing object are
  overwritten, and for a node-port service the node port of port 0 once more.\<close>

definition applyService ::
  "MonitorStackReconciler \<Rightarrow> MonitorStack \<Rightarrow> Service \<Rightarrow> World \<Rightarrow> error option \<times> World" where
  "applyService r monitorStack service w =
     (case SetControllerReference r monitorStack (svc_Meta service) of
        Inl err \<Rightarrow> (Some err, w)
      | Inr meta \<Rightarrow>
          (let service = service\<lparr>svc_Meta := meta\<rparr> in
           case GetService (metaKey (svc_Meta service)) w of
             (Inl err, w1) \<Rightarrow>
               if IsNotFound err then CreateService service w1 else (Some err, w1)
           | (Inr existing, w1) \<Rightarrow>
               (let existing =
                      existing\<lparr>svc_Spec := (svc_Spec existing)
                                  \<lparr>ks_Ports := ks_Ports (svc_Spec service),
                                   ks_Type := ks_Type (svc_Spec service)\<rparr>,
                               svc_Meta := (svc_Meta existing)
                                  \<lparr>om_Labels := om_Labels (svc_Meta service)\<rparr>\<rparr>;
                    existing =
                      (if ks_Type (svc_Spec service) = ''NodePort'' \<and>
                          length (ks_Ports (svc_Spec service)) > 0
                       then existing\<lparr>svc_Spec := (svc_Spec existing)
                              \<lparr>ks_Ports :=
                                 (case ks_Ports (svc_Spec existing) of
                                    [] \<Rightarrow> []
                                  | p # ps \<Rightarrow>
                                      p\<lparr>sp_NodePort :=
                                          sp_NodePort (hd (ks_Ports (svc_Spec service)))\<rparr> # ps)\<rparr>\<rparr>
                       else existing)
                in UpdateService existing w1)))"

definition createPrometheusService ::
  "MonitorStackReconciler \<Rightarrow> MonitorStack \<Rightarrow> World \<Rightarrow> error option \<times> World" where
  "createPrometheusService r monitorStack w =
     applyService r monitorStack (buildPrometheusService monitorStack) w"

definition createGrafanaService ::
  "MonitorStackReconciler \<Rightarrow> MonitorStack \<Rightarrow> World \<Rightarrow> error option \<times> World" where
  "createGrafanaService r monitorStack w =
     applyService r monitorStack (buildGrafanaService monitorStack) w"

definition createGrafanaDatasourcesConfigMap ::
  "MonitorStackReconciler \<Rightarrow> MonitorStack \<Rightarrow> World \<Rightarrow> error option \<times> World" where
  "createGrafanaDatasourcesConfigMap r monitorStack w =
     (let configMap =
            \<lparr>cm_Meta = \<lparr>om_Name = getGrafanaDatasourcesConfigMapName monitorStack,
                        om_Namespace = ms_Namespace monitorStack,
                        om_Labels = getLabels monitorStack ''grafana'',
                        om_Controller = None\<rparr>,
             cm_Data = [''datasources.yaml'' \<mapsto> buildGrafanaDatasourcesConfig monitorStack]\<rparr>
      in case SetControllerReference r monitorStack (cm_Meta configMap) of
           Inl err \<Rightarrow> (Some err, w)
         | Inr meta \<Rightarrow>
             (let configMap = configMap\<lparr>cm_Meta := meta\<rparr> in
              case GetConfigMap (metaKey (cm_Meta configMap)) w of
                (Inl err, w1) \<Rightarrow>
                  if IsNotFound err then CreateConfigMap configMap w1 else (Some err, w1)
              | (Inr existing, w1) \<Rightarrow>
                  UpdateConfigMap (existing\<lparr>cm_Data := cm_Data configMap\<rparr>) w1))"

subsection \<open>Per-subsystem reconciliation\<close>

text \<open>The last statements of \<open>reconcilePrometheus\<close> and \<open>reconcileGrafana\<close>: the
  component status is written from the deployment that was read back.\<close>

definition observe :: "ComponentStatus \<Rightarrow> Deployment \<Rightarrow> string \<Rightarrow> int \<Rightarrow> ComponentStatus" where
  "observe status deployment serviceName port =
     (let status = status\<lparr>cs_Ready := dst_ReadyReplicas (dep_Status deployment) > 0\<rparr>;
          status = status\<lparr>cs_Replicas := dst_Replicas (dep_Status deployment)\<rparr>
      in if dst_ReadyReplicas (dep_Status deployment) > 0
         then status\<lparr>cs_Message := ''Ready'',
                     cs_Endpoint := ''http://'' @ serviceName @ '':'' @ show_int port\<rparr>
         else status\<lparr>cs_Message := ''Not Ready''\<rparr>)"

definition reconcilePrometheus ::
  "MonitorStackReconciler \<Rightarrow> MonitorStack \<Rightarrow> World \<Rightarrow>
     (error option \<times> MonitorStack) outcome \<times> World" where
  "reconcilePrometheus r monitorStack w =
     (case createPrometheusConfigMap r monitorStack w of
        (Some err, w1) \<Rightarrow>
          (Return (Some (Wrap ''failed to create Prometheus ConfigMap: '' err), monitorStack), w1)
      | (None, w1) \<Rightarrow>
     (case (if sto_Size (p_Storage (Prometheus (ms_Spec monitorStack))) \<noteq> []
            then createPrometheusPVC r monitorStack w1 else (Return None, w1)) of
        (Panic m, w2) \<Rightarrow> (Panic m, w2)
      | (Return (Some err), w2) \<Rightarrow>
          (Return (Some (Wrap ''failed to create Prometheus PVC: '' err), monitorStack), w2)
      | (Return None, w2) \<Rightarrow>
     (case createPrometheusDeployment r monitorStack w2 of
        (Panic m, w3) \<Rightarrow> (Panic m, w3)
      | (Return (Some err), w3) \<Rightarrow>
          (Return (Some (Wrap ''failed to create Prometheus Deployment: '' err), monitorStack), w3)
      | (Return None, w3) \<Rightarrow>
     (case createPrometheusService r monitorStack w3 of
        (Some err, w4) \<Rightarrow>
          (Return (Some (Wrap ''failed to create Prometheus Service: '' err), monitorStack), w4)
      | (None, w4) \<Rightarrow>
     (case GetDeployment (ms_Namespace monitorStack, getPrometheusName monitorStack) w4 of
        (Inl err, w5) \<Rightarrow> (Return (Some err, monitorStack), w5)
      | (Inr deployment, w5) \<Rightarrow>
          (Return (None,
             monitorStack\<lparr>ms_Status := (ms_Status monitorStack)
               \<lparr>PrometheusStatus :=
                  observe (PrometheusStatus (ms_Status monitorStack)) deployment
                    (getPrometheusServiceName monitorStack)
                    (sv_Port (p_Service (Prometheus (ms_Spec monitorStack))))\<rparr>\<rparr>), w5))))))"

definition reconcileGrafana ::
  "MonitorStackReconciler \<Rightarrow> MonitorStack \<Rightarrow> World \<Rightarrow>
     (error option \<times> MonitorStack) outcome \<times> World" where
  "reconcileGrafana r monitorStack w =
     (case (if length (g_Datasources (Grafana (ms_Spec monitorStack))) > 0
            then createGrafanaDatasourcesConfigMap r monitorStack w else (None, w)) of
        (Some err, w1) \<Rightarrow>
          (Return (Some (Wrap ''failed to create Grafana datasources ConfigMap: '' err),
                   monitorStack), w1)
      | (None, w1) \<Rightarrow>
     (case createGrafanaDeployment r monitorStack w1 of
        (Panic m, w2) \<Rightarrow> (Panic m, w2)
      | (Return (Some err), w2) \<Rightarrow>
          (Return (Some (Wrap ''failed to create Grafana Deployment: '' err), monitorStack), w2)
      | (Return None, w2) \<Rightarrow>
     (case createGrafanaService r monitorStack w2 of
        (Some err, w3) \<Rightarrow>
          (Return (Some (Wrap ''failed to create Grafana Service: '' err), monitorStack), w3)
      | (None, w3) \<Rightarrow>
     (case GetDeployment (ms_Namespace monitorStack, getGrafanaName monitorStack) w3 of
        (Inl err, w4) \<Rightarrow> (Return (Some err, monitorStack), w4)
      | (Inr deployment, w4) \<Rightarrow>
          (Return (None,
             monitorStack\<lparr>ms_Status := (ms_Status monitorStack)
               \<lparr>GrafanaStatus :=
                  observe (GrafanaStatus (ms_Status monitorStack)) deployment
                    (getGrafanaServiceName monitorStack)
                    (sv_Port (g_Service (Grafana (ms_Spec monitorStack))))\<rparr>\<rparr>), w4)))))"

subsection \<open>Cleanup\<close>

text \<open>Each block gets the object and, when the get returned no error, deletes it; the
  result of the delete is dropped, and the method returns nil in every case.\<close>

definition cleanupPrometheusResources ::
  "MonitorStack \<Rightarrow> World \<Rightarrow> error option \<times> World" where
  "cleanupPrometheusResources monitorStack w =
     (let w = (case GetDeployment (ms_Namespace monitorStack, getPrometheusName monitorStack) w of
                 (Inr deployment, w1) \<Rightarrow> snd (DeleteDeployment deployment w1)
               | (Inl err, w1) \<Rightarrow> w1);
          w = (case GetService
                      (ms_Namespace monitorStack, getPrometheusServiceName monitorStack) w of
                 (Inr service, w1) \<Rightarrow> snd (DeleteService service w1)
               | (Inl err, w1) \<Rightarrow> w1);
          w = (case GetConfigMap
                      (ms_Namespace monitorStack, getPrometheusConfigMapName monitorStack) w of
                 (Inr configMap, w1) \<Rightarrow> snd (DeleteConfigMap configMap w1)
               | (Inl err, w1) \<Rightarrow> w1)
      in (None, w))"

definition cleanupGrafanaResources ::
  "MonitorStack \<Rightarrow> World \<Rightarrow> error option \<times> World" where
  "cleanupGrafanaResources monitorStack w =
     (let w = (case GetDeployment (ms_Namespace monitorStack, getGrafanaName monitorStack) w of
                 (Inr deployment, w1) \<Rightarrow> snd (DeleteDeployment deployment w1)
               | (Inl err, w1) \<Rightarrow> w1);
          w = (case GetService
                      (ms_Namespace monitorStack, getGrafanaServiceName monitorStack) w of
                 (Inr service, w1) \<Rightarrow> snd (DeleteService service w1)
               | (Inl err, w1) \<Rightarrow> w1)
      in (None, w))"

subsection \<open>Status\<close>

text \<open>\<open>updateStatus\<close> drops the result of the status write.\<close>

definition updateStatus ::
  "MonitorStack \<Rightarrow> string \<Rightarrow> string \<Rightarrow> World \<Rightarrow> MonitorStack \<times> World" where
  "updateStatus monitorStack phase message w =
     (let monitorStack =
            monitorStack\<lparr>ms_Status := (ms_Status monitorStack)
              \<lparr>Phase := phase, Message := message, LastUpdated := Clock w\<rparr>\<rparr>
      in (monitorStack, snd (StatusUpdate monitorStack w)))"

definition updateOverallStatus ::
  "MonitorStack \<Rightarrow> World \<Rightarrow> (error option \<times> MonitorStack) \<times> World" where
  "updateOverallStatus monitorStack w =
     (let prometheusReady = (\<not> p_Enabled (Prometheus (ms_Spec monitorStack)) \<or>
                             cs_Ready (PrometheusStatus (ms_Status monitorStack)));
          grafanaReady = (\<not> g_Enabled (Grafana (ms_Spec monitorStack)) \<or>
                          cs_Ready (GrafanaStatus (ms_Status monitorStack)));
          monitorStack =
            (if prometheusReady \<and> grafanaReady
             then monitorStack\<lparr>ms_Status := (ms_Status monitorStack)
                    \<lparr>Phase := ''Ready'', Message := ''All enabled components are ready''\<rparr>\<rparr>
             else monitorStack\<lparr>ms_Status := (ms_Status monitorStack)
                    \<lparr>Phase := ''Pending'', Message := ''Waiting for components to be ready''\<rparr>\<rparr>);
          monitorStack =
            monitorStack\<lparr>ms_Status := (ms_Status monitorStack)\<lparr>LastUpdated := Clock w\<rparr>\<rparr>
      in case StatusUpdate monitorStack w of (e, w1) \<Rightarrow> ((e, monitorStack), w1))"

subsection \<open>The deletion protocol\<close>

record Result =
  RequeueAfter :: nat

text \<open>Durations in seconds: \<open>time.Second * 30\<close>, \<open>time.Minute\<close>, \<open>time.Minute * 5\<close>.\<close>

definition handleDeletion ::
  "MonitorStack \<Rightarrow> World \<Rightarrow> (Result \<times> error option) \<times> World" where
  "handleDeletion monitorStack w =
     (case cleanupPrometheusResources monitorStack w of
        (Some err, w1) \<Rightarrow> ((\<lparr>RequeueAfter = 30\<rparr>, Some err), w1)
      | (None, w1) \<Rightarrow>
     (case cleanupGrafanaResources monitorStack w1 of
        (Some err, w2) \<Rightarrow> ((\<lparr>RequeueAfter = 30\<rparr>, Some err), w2)
      | (None, w2) \<Rightarrow>
     (case UpdateMonitorStack (RemoveFinalizer monitorStack finalizerName) w2 of
        (e, w3) \<Rightarrow> ((\<lparr>RequeueAfter = 0\<rparr>, e), w3))))"

subsection \<open>Reconcile\<close>

text \<open>Steps 6 and 7 of \<open>Reconcile\<close>: the dashboard, then the overall status.\<close>

definition Reconcile_grafana ::
  "MonitorStackReconciler \<Rightarrow> MonitorStack \<Rightarrow> World \<Rightarrow>
     (Result \<times> error option) outcome \<times> World" where
  "Reconcile_grafana r monitorStack w =
     (case (if g_Enabled (Grafana (ms_Spec monitorStack))
            then reconcileGrafana r monitorStack w
            else (case cleanupGrafanaResources monitorStack w of
                    (e, w1) \<Rightarrow> (Return (None, monitorStack), w1))) of
        (Panic m, w1) \<Rightarrow> (Panic m, w1)
      | (Return (Some err, monitorStack), w1) \<Rightarrow>
          (case updateStatus monitorStack ''Failed''
                  (''Grafana reconciliation failed: '' @ Error err) w1 of
             (monitorStack, w2) \<Rightarrow> (Return (\<lparr>RequeueAfter = 60\<rparr>, Some err), w2))
      | (Return (None, monitorStack), w1) \<Rightarrow>
          (case updateOverallStatus monitorStack w1 of
             ((Some err, monitorStack), w2) \<Rightarrow> (Return (\<lparr>RequeueAfter = 0\<rparr>, Some err), w2)
           | ((None, monitorStack), w2) \<Rightarrow> (Return (\<lparr>RequeueAfter = 300\<rparr>, None), w2)))"

text \<open>Step 5, the collector, followed by steps 6 and 7.\<close>

definition Reconcile_prometheus ::
  "MonitorStackReconciler \<Rightarrow> MonitorStack \<Rightarrow> World \<Rightarrow>
     (Result \<times> error option) outcome \<times> World" where
  "Reconcile_prometheus r monitorStack w =
     (case (if p_Enabled (Prometheus (ms_Spec monitorStack))
            then reconcilePrometheus r monitorStack w
            else (case cleanupPrometheusResources monitorStack w of
                    (e, w1) \<Rightarrow> (Return (None, monitorStack), w1))) of
        (Panic m, w1) \<Rightarrow> (Panic m, w1)
      | (Return (Some err, monitorStack), w1) \<Rightarrow>
          (case updateStatus monitorStack ''Failed''
                  (''Prometheus reconciliation failed: '' @ Error err) w1 of
             (monitorStack, w2) \<Rightarrow> (Return (\<lparr>RequeueAfter = 60\<rparr>, Some err), w2))
      | (Return (None, monitorStack), w1) \<Rightarrow> Reconcile_grafana r monitorStack w1)"

text \<open>Step 4: a stack without a phase is set to \<open>Pending\<close> and its status written.\<close>

definition Reconcile_init ::
  "MonitorStack \<Rightarrow> World \<Rightarrow> (error option \<times> MonitorStack) \<times> World" where
  "Reconcile_init monitorStack w =
     (if Phase (ms_Status monitorStack) = [] then
        (let monitorStack =
               monitorStack\<lparr>ms_Status := (ms_Status monitorStack)
                 \<lparr>Phase := ''Pending'', Message := ''Initializing MonitorStack'',
                  LastUpdated := Clock w\<rparr>\<rparr>
         in case StatusUpdate monitorStack w of (e, w1) \<Rightarrow> ((e, monitorStack), w1))
      else ((None, monitorStack), w))"

definition Reconcile ::
  "MonitorStackReconciler \<Rightarrow> NamespacedName \<Rightarrow> World \<Rightarrow>
     (Result \<times> error option) outcome \<times> World" where
  "Reconcile r req w =
     (case GetMonitorStack req w of
        (Inl err, w1) \<Rightarrow>
          if IsNotFound err then (Return (\<lparr>RequeueAfter = 0\<rparr>, None), w1)
          else (Return (\<lparr>RequeueAfter = 0\<rparr>, Some err), w1)
      | (Inr monitorStack, w1) \<Rightarrow>
          if ms_DeletionTimestamp monitorStack \<noteq> None then
            (case handleDeletion monitorStack w1 of (res, w2) \<Rightarrow> (Return res, w2))
          else if \<not> ContainsFinalizer monitorStack finalizerName then
            (case UpdateMonitorStack (AddFinalizer monitorStack finalizerName) w1 of
               (e, w2) \<Rightarrow> (Return (\<lparr>RequeueAfter = 0\<rparr>, e), w2))
          else
            (case Reconcile_init monitorStack w1 of
               ((Some err, monitorStack), w2) \<Rightarrow> (Return (\<lparr>RequeueAfter = 0\<rparr>, Some err), w2)
             | ((None, monitorStack), w2) \<Rightarrow> Reconcile_prometheus r monitorStack w2))"

section \<open>Concrete stacks used as inputs\<close>

text \<open>The manifest \<open>{prometheus: {enabled: true}}\<close>: every other field is left out.\<close>

definition enabledPrometheusOnly :: MonitorStack where
  "enabledPrometheusOnly =
     zeroMonitorStack\<lparr>ms_Spec := (ms_Spec zeroMonitorStack)
        \<lparr>Prometheus := zeroPrometheusSpec\<lparr>p_Enabled := True\<rparr>\<rparr>\<rparr>"

text \<open>A collector exposed on a node port, with the node port set to \<open>-1\<close>.\<close>

definition negativeNodePortStack :: MonitorStack where
  "negativeNodePortStack =
     zeroMonitorStack\<lparr>ms_Spec := (ms_Spec zeroMonitorStack)
        \<lparr>Prometheus := zeroPrometheusSpec
           \<lparr>p_Enabled := True, p_Image := ''prom/prometheus'', p_Tag := ''latest'',
            p_Service := \<lparr>sv_Type = ''NodePort'', sv_Port = 9090, sv_NodePort = - 1,
                          sv_Labels = Map.empty\<rparr>\<rparr>\<rparr>\<rparr>"

text \<open>A dashboard whose only datasource has no name.\<close>

definition unnamedDatasourceStack :: MonitorStack where
  "unnamedDatasourceStack =
     zeroMonitorStack\<lparr>ms_Spec := (ms_Spec zeroMonitorStack)
        \<lparr>Grafana := zeroGrafanaSpec
           \<lparr>g_Enabled := True, g_Image := ''grafana/grafana'', g_Tag := ''latest'',
            g_Service := \<lparr>sv_Type = ''ClusterIP'', sv_Port = 3000, sv_NodePort = 0,
                          sv_Labels = Map.empty\<rparr>,
            g_AdminPassword := ''admin'',
            g_Datasources :=
              [\<lparr>dsrc_Name = [], dsrc_Type = ''prometheus'',
                dsrc_URL = ''http://acme-prometheus:9090''\<rparr>]\<rparr>\<rparr>\<rparr>"

text \<open>Two stacks that differ in their names only.\<close>

definition acmeStack :: MonitorStack where
  "acmeStack = zeroMonitorStack\<lparr>ms_Name := ''acme'', ms_Namespace := ''monitoring''\<rparr>"


text \<open>A collector with an explicit service port and image; the rest is left out.\<close>

definition explicitPortStack :: MonitorStack where
  "explicitPortStack =
     zeroMonitorStack\<lparr>ms_Spec := (ms_Spec zeroMonitorStack)
        \<lparr>Prometheus := zeroPrometheusSpec
           \<lparr>p_Enabled := True, p_Image := ''quay.io/prometheus'',
            p_Service := zeroServiceSpec\<lparr>sv_Port := 8080\<rparr>\<rparr>\<rparr>\<rparr>"

section \<open>Concrete clusters used as inputs\<close>

definition emptyWorld :: World where
  "emptyWorld =
     \<lparr>MonitorStacks = Map.empty, Deployments = Map.empty, Services = Map.empty,
      ConfigMaps = Map.empty, PersistentVolumeClaims = Map.empty,
      Faults = [], Calls = [], Clock = 0\<rparr>"

text \<open>Both subsystems enabled; the collector has reported ready, the dashboard has not.\<close>

definition halfReadyStack :: MonitorStack where
  "halfReadyStack =
     acmeStack\<lparr>ms_Finalizers := [finalizerName],
       ms_Spec := (ms_Spec acmeStack)
         \<lparr>Prometheus := zeroPrometheusSpec\<lparr>p_Enabled := True\<rparr>,
          Grafana := zeroGrafanaSpec\<lparr>g_Enabled := True\<rparr>\<rparr>,
       ms_Status := zeroMonitorStackStatus
         \<lparr>Phase := ''Ready'',
          PrometheusStatus := zeroComponentStatus\<lparr>cs_Ready := True\<rparr>\<rparr>\<rparr>"

definition halfReadyWorld :: World where
  "halfReadyWorld =
     emptyWorld\<lparr>MonitorStacks := [stackKey halfReadyStack \<mapsto> halfReadyStack], Clock := 7\<rparr>"

section \<open>Notions used in the statements\<close>


definition grafanaKey :: "MonitorStack \<Rightarrow> NamespacedName" where
  "grafanaKey monitorStack = (ms_Namespace monitorStack, getGrafanaName monitorStack)"

text \<open>A delete request on a claim; a create or update request on a child resource.\<close>

definition isClaimDelete :: "ApiCall \<Rightarrow> bool" where
  "isClaimDelete c =
     (case c of (verb, kind, key) \<Rightarrow> verb = VDelete \<and> kind = KPersistentVolumeClaim)"

definition isChildWrite :: "ApiCall \<Rightarrow> bool" where
  "isChildWrite c =
     (case c of (verb, kind, key) \<Rightarrow>
        (verb = VCreate \<or> verb = VUpdate) \<and> kind \<noteq> KMonitorStack)"

text \<open>From \<open>w\<close> to \<open>w'\<close> every claim of \<open>w\<close> is still there, unchanged, and no delete
  request on a claim was issued.\<close>

definition claimsKept :: "World \<Rightarrow> World \<Rightarrow> bool" where
  "claimsKept w w' \<longleftrightarrow>
     (\<forall>key pvc. PersistentVolumeClaims w key = Some pvc \<longrightarrow>
         PersistentVolumeClaims w' key = Some pvc) \<and>
     filter isClaimDelete (Calls w') = filter isClaimDelete (Calls w)"

text \<open>The API server stores every object under its own namespace and name.\<close>

definition wellKeyed :: "World \<Rightarrow> bool" where
  "wellKeyed w \<longleftrightarrow>
     (\<forall>key obj. MonitorStacks w key = Some obj \<longrightarrow> stackKey obj = key) \<and>
     (\<forall>key obj. Deployments w key = Some obj \<longrightarrow> metaKey (dep_Meta obj) = key) \<and>
     (\<forall>key obj. Services w key = Some obj \<longrightarrow> metaKey (svc_Meta obj) = key) \<and>
     (\<forall>key obj. ConfigMaps w key = Some obj \<longrightarrow> metaKey (cm_Meta obj) = key) \<and>
     (\<forall>key obj. PersistentVolumeClaims w key = Some obj \<longrightarrow> metaKey (pvc_Meta obj) = key)"

section \<open>More concrete inputs\<close>

definition reconciler :: MonitorStackReconciler where
  "reconciler =
     \<lparr>Scheme = True,
      quantityOK = (\<lambda>s. s \<in> set [''100m'', ''128Mi'', ''256Mi'', ''10Gi'']),
      defaultPrometheusConfig = ''global: {scrape_interval: 15s}''\<rparr>"

text \<open>The stack \<open>acme\<close> with only the collector enabled, as stored after a reconciliation
  that saw one ready replica: ready, with its endpoint published.\<close>

definition collectorStack :: MonitorStack where
  "collectorStack =
     acmeStack\<lparr>ms_Finalizers := [finalizerName],
       ms_Spec := (ms_Spec acmeStack)
         \<lparr>Prometheus := zeroPrometheusSpec
            \<lparr>p_Enabled := True, p_Image := ''prom/prometheus'', p_Tag := ''latest'',
             p_Service := zeroServiceSpec\<lparr>sv_Type := ''ClusterIP'', sv_Port := 9090\<rparr>\<rparr>\<rparr>,
       ms_Status := zeroMonitorStackStatus
         \<lparr>Phase := ''Ready'', Message := ''All enabled components are ready'',
          PrometheusStatus :=
            \<lparr>cs_Ready = True, cs_Replicas = 1, cs_Message = ''Ready'',
             cs_Endpoint = ''http://acme-prometheus:9090''\<rparr>\<rparr>\<rparr>"

definition emptyDeploymentSpec :: DeploymentSpec where
  "emptyDeploymentSpec =
     \<lparr>dps_Replicas = 1, dps_Selector = Map.empty, dps_TemplateLabels = Map.empty,
      dps_SecurityContext =
        \<lparr>psc_RunAsNonRoot = True, psc_RunAsUser = 65534, psc_FSGroup = 65534\<rparr>,
      dps_Containers = [], dps_Volumes = []\<rparr>"

text \<open>The collector's deployment with one replica that is not ready.\<close>

definition unreadyDeployment :: Deployment where
  "unreadyDeployment =
     \<lparr>dep_Meta = \<lparr>om_Name = ''acme-prometheus'', om_Namespace = ''monitoring'',
                  om_Labels = Map.empty, om_Controller = Some ''acme''\<rparr>,
      dep_Spec = emptyDeploymentSpec,
      dep_Status = \<lparr>dst_Replicas = 1, dst_ReadyReplicas = 0\<rparr>\<rparr>"

definition degradedWorld :: World where
  "degradedWorld =
     emptyWorld\<lparr>MonitorStacks := [(''monitoring'', ''acme'') \<mapsto> collectorStack],
                Deployments := [(''monitoring'', ''acme-prometheus'') \<mapsto> unreadyDeployment],
                Clock := 9\<rparr>"

text \<open>The same stack marked for deletion, in a cluster where the third request of the
  invocation (the delete of the collector's deployment) fails with a server error.\<close>

definition deletingStack :: MonitorStack where
  "deletingStack = collectorStack\<lparr>ms_DeletionTimestamp := Some 5\<rparr>"

definition failingDeleteWorld :: World where
  "failingDeleteWorld =
     emptyWorld\<lparr>MonitorStacks := [(''monitoring'', ''acme'') \<mapsto> deletingStack],
                Deployments := [(''monitoring'', ''acme-prometheus'') \<mapsto> unreadyDeployment],
                Faults := [None, None,
                           Some (StatusError InternalError ''etcdserver: request timed out'')],
                Clock := 9\<rparr>"


definition existingClaim :: PersistentVolumeClaim where
  "existingClaim =
     \<lparr>pvc_Meta = \<lparr>om_Name = ''acme-prometheus-data'', om_Namespace = ''monitoring'',
                  om_Labels = Map.empty, om_Controller = Some ''acme''\<rparr>,
      pvc_AccessModes = [''ReadWriteOnce''],
      pvc_Requests = [''storage'' \<mapsto> ''5Gi''],
      pvc_StorageClassName = None\<rparr>"

definition claimWorld :: World where
  "claimWorld =
     emptyWorld\<lparr>PersistentVolumeClaims :=
                  [(''monitoring'', ''acme-prometheus-data'') \<mapsto> existingClaim]\<rparr>"


text \<open>The stack marked for deletion in a cluster that holds its claim.\<close>

definition deletingClaimWorld :: World where
  "deletingClaimWorld =
     claimWorld\<lparr>MonitorStacks := [(''monitoring'', ''acme'') \<mapsto> deletingStack]\<rparr>"

text \<open>A cluster where the collector's deployment has one ready replica and the stack
  has not been observed yet.\<close>

definition pendingStack :: MonitorStack where
  "pendingStack = collectorStack\<lparr>ms_Status := zeroMonitorStackStatus\<lparr>Phase := ''Pending''\<rparr>\<rparr>"

definition readyDeployment :: Deployment where
  "readyDeployment = unreadyDeployment\<lparr>dep_Status := \<lparr>dst_Replicas = 1, dst_ReadyReplicas = 1\<rparr>\<rparr>"

definition healthyWorld :: World where
  "healthyWorld =
     emptyWorld\<lparr>MonitorStacks := [(''monitoring'', ''acme'') \<mapsto> pendingStack],
                Deployments := [(''monitoring'', ''acme-prometheus'') \<mapsto> readyDeployment],
                Clock := 3\<rparr>"

text \<open>What the stored stack \<open>acme\<close> says of its collector: phase, ready, endpoint.\<close>

definition collectorSummary :: "World \<Rightarrow> (string \<times> bool \<times> string) option" where
  "collectorSummary w =
     map_option (\<lambda>s. (Phase (ms_Status s), cs_Ready (PrometheusStatus (ms_Status s)),
                       cs_Endpoint (PrometheusStatus (ms_Status s))))
       (MonitorStacks w (''monitoring'', ''acme''))"

section \<open>Inputs for the reconciliation of a spec that fails validation\<close>

text \<open>The phase stored for the stack at a key.\<close>

definition phaseAt :: "World \<Rightarrow> NamespacedName \<Rightarrow> string option" where
  "phaseAt w key = map_option (\<lambda>s. Phase (ms_Status s)) (MonitorStacks w key)"

text \<open>The stack \<open>acme\<close> with both subsystems disabled, as stored once its finalizer has
  been added: no phase yet.\<close>

definition idleStack :: MonitorStack where
  "idleStack = acmeStack\<lparr>ms_Finalizers := [finalizerName]\<rparr>"

definition idleWorld :: World where
  "idleWorld = emptyWorld\<lparr>MonitorStacks := [(''monitoring'', ''acme'') \<mapsto> idleStack], Clock := 4\<rparr>"

section \<open>Inputs for the reconciliation of a disabled dashboard\<close>

text \<open>The stack \<open>acme\<close> after its dashboard was enabled and converged, with the dashboard
  now disabled in the spec: the stored status of the dashboard is the one written by the
  last reconciliation that saw it enabled.\<close>

definition disabledDashboardStack :: MonitorStack where
  "disabledDashboardStack =
     collectorStack\<lparr>ms_Status := (ms_Status collectorStack)
       \<lparr>GrafanaStatus :=
          \<lparr>cs_Ready = True, cs_Replicas = 1, cs_Message = ''Ready'',
           cs_Endpoint = ''http://acme-grafana:3000''\<rparr>\<rparr>\<rparr>"

text \<open>The dashboard's deployment, with one ready replica, and its service.\<close>

definition grafanaDeployment :: Deployment where
  "grafanaDeployment =
     \<lparr>dep_Meta = \<lparr>om_Name = ''acme-grafana'', om_Namespace = ''monitoring'',
                  om_Labels = Map.empty, om_Controller = Some ''acme''\<rparr>,
      dep_Spec = emptyDeploymentSpec,
      dep_Status = \<lparr>dst_Replicas = 1, dst_ReadyReplicas = 1\<rparr>\<rparr>"

definition grafanaService :: Service where
  "grafanaService =
     \<lparr>svc_Meta = \<lparr>om_Name = ''acme-grafana'', om_Namespace = ''monitoring'',
                  om_Labels = Map.empty, om_Controller = Some ''acme''\<rparr>,
      svc_Spec = \<lparr>ks_Type = ''ClusterIP'', ks_Selector = Map.empty,
                  ks_Ports = [\<lparr>sp_Name = ''http'', sp_Port = 3000, sp_TargetPort = 3000,
                               sp_Protocol = ''TCP'', sp_NodePort = 0\<rparr>]\<rparr>\<rparr>"

definition disabledDashboardWorld :: World where
  "disabledDashboardWorld =
     emptyWorld\<lparr>MonitorStacks := [(''monitoring'', ''acme'') \<mapsto> disabledDashboardStack],
                Deployments := [(''monitoring'', ''acme-prometheus'') \<mapsto> readyDeployment,
                                (''monitoring'', ''acme-grafana'') \<mapsto> grafanaDeployment],
                Services := [(''monitoring'', ''acme-grafana'') \<mapsto> grafanaService],
                Clock := 11\<rparr>"

text \<open>What the stored stack \<open>acme\<close> says of its dashboard.\<close>

definition dashboardStatus :: "World \<Rightarrow> ComponentStatus option" where
  "dashboardStatus w =
     map_option (\<lambda>s. GrafanaStatus (ms_Status s)) (MonitorStacks w (''monitoring'', ''acme''))"

section \<open>Names\<close>


lemmas name_defs =
  getPrometheusName_def getPrometheusServiceName_def getPrometheusConfigMapName_def
  getPrometheusPVCName_def getGrafanaName_def getGrafanaServiceName_def
  getGrafanaDatasourcesConfigMapName_def




section \<open>Validation\<close>

lemma validateDatasources_iff:
  "validateDatasources i dss \<noteq> None \<longleftrightarrow>
     (\<exists>ds \<in> set dss. dsrc_Name ds = [] \<or> dsrc_Type ds = [] \<or> dsrc_URL ds = [])"
  by (induction dss arbitrary: i) auto

lemma validatePrometheusConfig_iff:
  "validatePrometheusConfig ms \<noteq> None \<longleftrightarrow>
     (sv_Port (p_Service (Prometheus (ms_Spec ms))) < 1 \<or>
      sv_Port (p_Service (Prometheus (ms_Spec ms))) > 65535 \<or>
      (sv_Type (p_Service (Prometheus (ms_Spec ms))) = ''NodePort'' \<and>
       0 < sv_NodePort (p_Service (Prometheus (ms_Spec ms))) \<and>
       (sv_NodePort (p_Service (Prometheus (ms_Spec ms))) < 30000 \<or>
        sv_NodePort (p_Service (Prometheus (ms_Spec ms))) > 32767)) \<or>
      p_Image (Prometheus (ms_Spec ms)) = [] \<or> p_Tag (Prometheus (ms_Spec ms)) = [])"
  by (simp add: validatePrometheusConfig_def Let_def)

lemma validateGrafanaConfig_iff:
  "validateGrafanaConfig ms \<noteq> None \<longleftrightarrow>
     (sv_Port (g_Service (Grafana (ms_Spec ms))) < 1 \<or>
      sv_Port (g_Service (Grafana (ms_Spec ms))) > 65535 \<or>
      (sv_Type (g_Service (Grafana (ms_Spec ms))) = ''NodePort'' \<and>
       0 < sv_NodePort (g_Service (Grafana (ms_Spec ms))) \<and>
       (sv_NodePort (g_Service (Grafana (ms_Spec ms))) < 30000 \<or>
        sv_NodePort (g_Service (Grafana (ms_Spec ms))) > 32767)) \<or>
      g_Image (Grafana (ms_Spec ms)) = [] \<or> g_Tag (Grafana (ms_Spec ms)) = [] \<or>
      g_AdminPassword (Grafana (ms_Spec ms)) = [] \<or>
      (\<exists>ds \<in> set (g_Datasources (Grafana (ms_Spec ms))).
          dsrc_Name ds = [] \<or> dsrc_Type ds = [] \<or> dsrc_URL ds = []))"
  using validateDatasources_iff [of 0 "g_Datasources (Grafana (ms_Spec ms))"]
  by (auto simp: validateGrafanaConfig_def Let_def)

lemma validateMonitorStack_iff:
  "validateMonitorStack ms \<noteq> None \<longleftrightarrow>
     (\<not> p_Enabled (Prometheus (ms_Spec ms)) \<and> \<not> g_Enabled (Grafana (ms_Spec ms))) \<or>
     (p_Enabled (Prometheus (ms_Spec ms)) \<and> validatePrometheusConfig ms \<noteq> None) \<or>
     (g_Enabled (Grafana (ms_Spec ms)) \<and> validateGrafanaConfig ms \<noteq> None)"
  by (auto simp: validateMonitorStack_def split: option.splits)

text \<open>
  Claim C5, as stated, fails on the code: a node port is checked against
  \<open>[30000,32767]\<close> only when it is positive.  With service type \<open>NodePort\<close> and node
  port \<open>-1\<close> (non-zero and outside the range) validation returns nil.
\<close>

theorem validate_negative_nodePort_accepted:
  "validateMonitorStack negativeNodePortStack = None \<and>
   p_Enabled (Prometheus (ms_Spec negativeNodePortStack)) \<and>
   sv_Type (p_Service (Prometheus (ms_Spec negativeNodePortStack))) = ''NodePort'' \<and>
   sv_NodePort (p_Service (Prometheus (ms_Spec negativeNodePortStack))) \<noteq> 0 \<and>
   sv_NodePort (p_Service (Prometheus (ms_Spec negativeNodePortStack))) < 30000"
  by (simp add: negativeNodePortStack_def validateMonitorStack_def validatePrometheusConfig_def
      zeroMonitorStack_def zeroPrometheusSpec_def zeroGrafanaSpec_def Let_def)

text \<open>
  Claim C5, amended.  Validation returns an error exactly when both subsystems are
  disabled, or an enabled subsystem has its service port outside \<open>[1,65535]\<close>, or service
  type \<open>NodePort\<close> with a positive node port outside \<open>[30000,32767]\<close>, or an empty image
  or tag, or (dashboard only) an empty admin password or a datasource entry with an empty
  name, type or URL; in every other case it returns nil.
\<close>

theorem validateMonitorStack_error_iff:
  "validateMonitorStack ms \<noteq> None \<longleftrightarrow>
     (\<not> p_Enabled (Prometheus (ms_Spec ms)) \<and> \<not> g_Enabled (Grafana (ms_Spec ms))) \<or>
     (p_Enabled (Prometheus (ms_Spec ms)) \<and>
        (sv_Port (p_Service (Prometheus (ms_Spec ms))) < 1 \<or>
         sv_Port (p_Service (Prometheus (ms_Spec ms))) > 65535 \<or>
         (sv_Type (p_Service (Prometheus (ms_Spec ms))) = ''NodePort'' \<and>
          0 < sv_NodePort (p_Service (Prometheus (ms_Spec ms))) \<and>
          (sv_NodePort (p_Service (Prometheus (ms_Spec ms))) < 30000 \<or>
           sv_NodePort (p_Service (Prometheus (ms_Spec ms))) > 32767)) \<or>
         p_Image (Prometheus (ms_Spec ms)) = [] \<or> p_Tag (Prometheus (ms_Spec ms)) = [])) \<or>
     (g_Enabled (Grafana (ms_Spec ms)) \<and>
        (sv_Port (g_Service (Grafana (ms_Spec ms))) < 1 \<or>
         sv_Port (g_Service (Grafana (ms_Spec ms))) > 65535 \<or>
         (sv_Type (g_Service (Grafana (ms_Spec ms))) = ''NodePort'' \<and>
          0 < sv_NodePort (g_Service (Grafana (ms_Spec ms))) \<and>
          (sv_NodePort (g_Service (Grafana (ms_Spec ms))) < 30000 \<or>
           sv_NodePort (g_Service (Grafana (ms_Spec ms))) > 32767)) \<or>
         g_Image (Grafana (ms_Spec ms)) = [] \<or> g_Tag (Grafana (ms_Spec ms)) = [] \<or>
         g_AdminPassword (Grafana (ms_Spec ms)) = [] \<or>
         (\<exists>ds \<in> set (g_Datasources (Grafana (ms_Spec ms))).
             dsrc_Name ds = [] \<or> dsrc_Type ds = [] \<or> dsrc_URL ds = [])))"
  unfolding validateMonitorStack_iff validatePrometheusConfig_iff validateGrafanaConfig_iff
  by blast

theorem validateMonitorStack_error_iff_witness:
  "validateMonitorStack zeroMonitorStack \<noteq> None \<and>
   validateMonitorStack unnamedDatasourceStack \<noteq> None"
  using validateMonitorStack_error_iff [of zeroMonitorStack]
    validateMonitorStack_error_iff [of unnamedDatasourceStack]
  by (simp add: unnamedDatasourceStack_def zeroMonitorStack_def zeroPrometheusSpec_def
      zeroGrafanaSpec_def)

section \<open>Defaulting\<close>

lemma setPrometheusDefaults_fields:
  "p_Enabled (setPrometheusDefaults p) = p_Enabled p"
  "p_Image (setPrometheusDefaults p) = (if p_Image p = [] then ''prom/prometheus'' else p_Image p)"
  "p_Tag (setPrometheusDefaults p) = (if p_Tag p = [] then ''latest'' else p_Tag p)"
  "sv_Port (p_Service (setPrometheusDefaults p)) =
      (if sv_Port (p_Service p) = 0 then 9090 else sv_Port (p_Service p))"
  "sv_Type (p_Service (setPrometheusDefaults p)) =
      (if sv_Type (p_Service p) = [] then ''ClusterIP'' else sv_Type (p_Service p))"
  "p_Retention (setPrometheusDefaults p) = (if p_Retention p = [] then ''15d'' else p_Retention p)"
  "rl_CPU (rq_Requests (p_Resources (setPrometheusDefaults p))) =
      (if rl_CPU (rq_Requests (p_Resources p)) = [] then ''100m''
       else rl_CPU (rq_Requests (p_Resources p)))"
  "rl_Memory (rq_Requests (p_Resources (setPrometheusDefaults p))) =
      (if rl_Memory (rq_Requests (p_Resources p)) = [] then ''256Mi''
       else rl_Memory (rq_Requests (p_Resources p)))"
  by (simp_all add: setPrometheusDefaults_def Let_def)

lemma setGrafanaDefaults_fields:
  "g_Enabled (setGrafanaDefaults g) = g_Enabled g"
  "g_Image (setGrafanaDefaults g) = (if g_Image g = [] then ''grafana/grafana'' else g_Image g)"
  "g_Tag (setGrafanaDefaults g) = (if g_Tag g = [] then ''latest'' else g_Tag g)"
  "sv_Port (g_Service (setGrafanaDefaults g)) =
      (if sv_Port (g_Service g) = 0 then 3000 else sv_Port (g_Service g))"
  "sv_Type (g_Service (setGrafanaDefaults g)) =
      (if sv_Type (g_Service g) = [] then ''ClusterIP'' else sv_Type (g_Service g))"
  "g_AdminPassword (setGrafanaDefaults g) =
      (if g_AdminPassword g = [] then ''admin'' else g_AdminPassword g)"
  "rl_CPU (rq_Requests (g_Resources (setGrafanaDefaults g))) =
      (if rl_CPU (rq_Requests (g_Resources g)) = [] then ''100m''
       else rl_CPU (rq_Requests (g_Resources g)))"
  "rl_Memory (rq_Requests (g_Resources (setGrafanaDefaults g))) =
      (if rl_Memory (rq_Requests (g_Resources g)) = [] then ''128Mi''
       else rl_Memory (rq_Requests (g_Resources g)))"
  by (simp_all add: setGrafanaDefaults_def Let_def)

lemma setPrometheusDefaults_idem:
  "setPrometheusDefaults (setPrometheusDefaults p) = setPrometheusDefaults p"
  by (simp add: setPrometheusDefaults_def Let_def)

lemma setGrafanaDefaults_idem:
  "setGrafanaDefaults (setGrafanaDefaults g) = setGrafanaDefaults g"
  by (simp add: setGrafanaDefaults_def Let_def)

lemma setDefaultValues_Prometheus:
  "Prometheus (ms_Spec (setDefaultValues ms)) =
     (if p_Enabled (Prometheus (ms_Spec ms)) then setPrometheusDefaults (Prometheus (ms_Spec ms))
      else Prometheus (ms_Spec ms))"
  by (simp add: setDefaultValues_def Let_def)

lemma setDefaultValues_Grafana:
  "Grafana (ms_Spec (setDefaultValues ms)) =
     (if g_Enabled (Grafana (ms_Spec ms)) then setGrafanaDefaults (Grafana (ms_Spec ms))
      else Grafana (ms_Spec ms))"
  by (simp add: setDefaultValues_def Let_def)

lemma setDefaultValues_idem: "setDefaultValues (setDefaultValues ms) = setDefaultValues ms"
  by (simp add: setDefaultValues_def Let_def setPrometheusDefaults_fields
      setGrafanaDefaults_fields setPrometheusDefaults_idem setGrafanaDefaults_idem)

text \<open>Defaulting changes the seven fields that have a default, and nothing else.\<close>

lemma setPrometheusDefaults_frame:
  "setPrometheusDefaults p =
     p\<lparr>p_Image := p_Image (setPrometheusDefaults p),
       p_Tag := p_Tag (setPrometheusDefaults p),
       p_Service := (p_Service p)
         \<lparr>sv_Port := sv_Port (p_Service (setPrometheusDefaults p)),
          sv_Type := sv_Type (p_Service (setPrometheusDefaults p))\<rparr>,
       p_Retention := p_Retention (setPrometheusDefaults p),
       p_Resources := (p_Resources p)
         \<lparr>rq_Requests := (rq_Requests (p_Resources p))
            \<lparr>rl_CPU := rl_CPU (rq_Requests (p_Resources (setPrometheusDefaults p))),
             rl_Memory := rl_Memory (rq_Requests (p_Resources (setPrometheusDefaults p)))\<rparr>\<rparr>\<rparr>"
  by (simp add: setPrometheusDefaults_def Let_def)

lemma setGrafanaDefaults_frame:
  "setGrafanaDefaults g =
     g\<lparr>g_Image := g_Image (setGrafanaDefaults g),
       g_Tag := g_Tag (setGrafanaDefaults g),
       g_Service := (g_Service g)
         \<lparr>sv_Port := sv_Port (g_Service (setGrafanaDefaults g)),
          sv_Type := sv_Type (g_Service (setGrafanaDefaults g))\<rparr>,
       g_AdminPassword := g_AdminPassword (setGrafanaDefaults g),
       g_Resources := (g_Resources g)
         \<lparr>rq_Requests := (rq_Requests (g_Resources g))
            \<lparr>rl_CPU := rl_CPU (rq_Requests (g_Resources (setGrafanaDefaults g))),
             rl_Memory := rl_Memory (rq_Requests (g_Resources (setGrafanaDefaults g)))\<rparr>\<rparr>\<rparr>"
  by (simp add: setGrafanaDefaults_def Let_def)

lemma setDefaultValues_frame:
  "setDefaultValues ms =
     ms\<lparr>ms_Spec := (ms_Spec ms)
          \<lparr>Prometheus := Prometheus (ms_Spec (setDefaultValues ms)),
           Grafana := Grafana (ms_Spec (setDefaultValues ms))\<rparr>\<rparr>"
  by (simp add: setDefaultValues_def Let_def)

lemma setDefaultValues_unset:
  "Prometheus (ms_Spec ms) = zeroPrometheusSpec\<lparr>p_Enabled := True\<rparr> \<Longrightarrow>
   Prometheus (ms_Spec (setDefaultValues ms)) =
     \<lparr>p_Enabled = True, p_Image = ''prom/prometheus'', p_Tag = ''latest'',
      p_Resources = \<lparr>rq_Limits = \<lparr>rl_CPU = [], rl_Memory = []\<rparr>,
                     rq_Requests = \<lparr>rl_CPU = ''100m'', rl_Memory = ''256Mi''\<rparr>\<rparr>,
      p_Storage = \<lparr>sto_Size = [], sto_StorageClass = []\<rparr>,
      p_Service = \<lparr>sv_Type = ''ClusterIP'', sv_Port = 9090, sv_NodePort = 0,
                   sv_Labels = Map.empty\<rparr>,
      p_Config = [], p_Retention = ''15d''\<rparr>"
  by (simp add: setDefaultValues_Prometheus setPrometheusDefaults_def Let_def
      zeroPrometheusSpec_def zeroServiceSpec_def zeroResourceRequirements_def
      zeroResourceList_def)

text \<open>
  Claim C4.  For every stack whose collector is enabled with every other collector field
  unset, defaulting yields service port 9090, service type \<open>ClusterIP\<close>, retention \<open>15d\<close>,
  CPU request \<open>100m\<close>, memory request \<open>256Mi\<close>, image \<open>prom/prometheus\<close> and tag \<open>latest\<close>,
  and leaves every other collector field unset.  For every stack, each of the fourteen
  fields that have a default holds its default after defaulting exactly when its subsystem
  is enabled and the field was unset, and holds its old value otherwise; every other field
  of the collector, of the dashboard and of the stack is what it was; and defaulting twice
  is defaulting once.
\<close>

theorem setDefaultValues_defaults:
  "(Prometheus (ms_Spec ms) = zeroPrometheusSpec\<lparr>p_Enabled := True\<rparr> \<longrightarrow>
      Prometheus (ms_Spec (setDefaultValues ms)) =
        \<lparr>p_Enabled = True, p_Image = ''prom/prometheus'', p_Tag = ''latest'',
         p_Resources = \<lparr>rq_Limits = \<lparr>rl_CPU = [], rl_Memory = []\<rparr>,
                        rq_Requests = \<lparr>rl_CPU = ''100m'', rl_Memory = ''256Mi''\<rparr>\<rparr>,
         p_Storage = \<lparr>sto_Size = [], sto_StorageClass = []\<rparr>,
         p_Service = \<lparr>sv_Type = ''ClusterIP'', sv_Port = 9090, sv_NodePort = 0,
                      sv_Labels = Map.empty\<rparr>,
         p_Config = [], p_Retention = ''15d''\<rparr>) \<and>
   (let p = Prometheus (ms_Spec ms); p' = Prometheus (ms_Spec (setDefaultValues ms)) in
      p_Image p' = (if p_Enabled p \<and> p_Image p = [] then ''prom/prometheus'' else p_Image p) \<and>
      p_Tag p' = (if p_Enabled p \<and> p_Tag p = [] then ''latest'' else p_Tag p) \<and>
      sv_Port (p_Service p') =
        (if p_Enabled p \<and> sv_Port (p_Service p) = 0 then 9090 else sv_Port (p_Service p)) \<and>
      sv_Type (p_Service p') =
        (if p_Enabled p \<and> sv_Type (p_Service p) = [] then ''ClusterIP''
         else sv_Type (p_Service p)) \<and>
      p_Retention p' = (if p_Enabled p \<and> p_Retention p = [] then ''15d'' else p_Retention p) \<and>
      rl_CPU (rq_Requests (p_Resources p')) =
        (if p_Enabled p \<and> rl_CPU (rq_Requests (p_Resources p)) = [] then ''100m''
         else rl_CPU (rq_Requests (p_Resources p))) \<and>
      rl_Memory (rq_Requests (p_Resources p')) =
        (if p_Enabled p \<and> rl_Memory (rq_Requests (p_Resources p)) = [] then ''256Mi''
         else rl_Memory (rq_Requests (p_Resources p))) \<and>
      p' = p\<lparr>p_Image := p_Image p', p_Tag := p_Tag p',
              p_Service := (p_Service p)
                \<lparr>sv_Port := sv_Port (p_Service p'), sv_Type := sv_Type (p_Service p')\<rparr>,
              p_Retention := p_Retention p',
              p_Resources := (p_Resources p)
                \<lparr>rq_Requests := (rq_Requests (p_Resources p))
                   \<lparr>rl_CPU := rl_CPU (rq_Requests (p_Resources p')),
                    rl_Memory := rl_Memory (rq_Requests (p_Resources p'))\<rparr>\<rparr>\<rparr>) \<and>
   (let g = Grafana (ms_Spec ms); g' = Grafana (ms_Spec (setDefaultValues ms)) in
      g_Image g' = (if g_Enabled g \<and> g_Image g = [] then ''grafana/grafana'' else g_Image g) \<and>
      g_Tag g' = (if g_Enabled g \<and> g_Tag g = [] then ''latest'' else g_Tag g) \<and>
      sv_Port (g_Service g') =
        (if g_Enabled g \<and> sv_Port (g_Service g) = 0 then 3000 else sv_Port (g_Service g)) \<and>
      sv_Type (g_Service g') =
        (if g_Enabled g \<and> sv_Type (g_Service g) = [] then ''ClusterIP''
         else sv_Type (g_Service g)) \<and>
      g_AdminPassword g' =
        (if g_Enabled g \<and> g_AdminPassword g = [] then ''admin'' else g_AdminPassword g) \<and>
      rl_CPU (rq_Requests (g_Resources g')) =
        (if g_Enabled g \<and> rl_CPU (rq_Requests (g_Resources g)) = [] then ''100m''
         else rl_CPU (rq_Requests (g_Resources g))) \<and>
      rl_Memory (rq_Requests (g_Resources g')) =
        (if g_Enabled g \<and> rl_Memory (rq_Requests (g_Resources g)) = [] then ''128Mi''
         else rl_Memory (rq_Requests (g_Resources g))) \<and>
      g' = g\<lparr>g_Image := g_Image g', g_Tag := g_Tag g',
              g_Service := (g_Service g)
                \<lparr>sv_Port := sv_Port (g_Service g'), sv_Type := sv_Type (g_Service g')\<rparr>,
              g_AdminPassword := g_AdminPassword g',
              g_Resources := (g_Resources g)
                \<lparr>rq_Requests := (rq_Requests (g_Resources g))
                   \<lparr>rl_CPU := rl_CPU (rq_Requests (g_Resources g')),
                    rl_Memory := rl_Memory (rq_Requests (g_Resources g'))\<rparr>\<rparr>\<rparr>) \<and>
   setDefaultValues ms =
     ms\<lparr>ms_Spec := (ms_Spec ms)
          \<lparr>Prometheus := Prometheus (ms_Spec (setDefaultValues ms)),
           Grafana := Grafana (ms_Spec (setDefaultValues ms))\<rparr>\<rparr> \<and>
   setDefaultValues (setDefaultValues ms) = setDefaultValues ms"
proof (intro conjI)
  show "Prometheus (ms_Spec ms) = zeroPrometheusSpec\<lparr>p_Enabled := True\<rparr> \<longrightarrow>
      Prometheus (ms_Spec (setDefaultValues ms)) =
        \<lparr>p_Enabled = True, p_Image = ''prom/prometheus'', p_Tag = ''latest'',
         p_Resources = \<lparr>rq_Limits = \<lparr>rl_CPU = [], rl_Memory = []\<rparr>,
                        rq_Requests = \<lparr>rl_CPU = ''100m'', rl_Memory = ''256Mi''\<rparr>\<rparr>,
         p_Storage = \<lparr>sto_Size = [], sto_StorageClass = []\<rparr>,
         p_Service = \<lparr>sv_Type = ''ClusterIP'', sv_Port = 9090, sv_NodePort = 0,
                      sv_Labels = Map.empty\<rparr>,
         p_Config = [], p_Retention = ''15d''\<rparr>"
    by (rule impI) (rule setDefaultValues_unset)
next
  show "let p = Prometheus (ms_Spec ms); p' = Prometheus (ms_Spec (setDefaultValues ms)) in
      p_Image p' = (if p_Enabled p \<and> p_Image p = [] then ''prom/prometheus'' else p_Image p) \<and>
      p_Tag p' = (if p_Enabled p \<and> p_Tag p = [] then ''latest'' else p_Tag p) \<and>
      sv_Port (p_Service p') =
        (if p_Enabled p \<and> sv_Port (p_Service p) = 0 then 9090 else sv_Port (p_Service p)) \<and>
      sv_Type (p_Service p') =
        (if p_Enabled p \<and> sv_Type (p_Service p) = [] then ''ClusterIP''
         else sv_Type (p_Service p)) \<and>
      p_Retention p' = (if p_Enabled p \<and> p_Retention p = [] then ''15d'' else p_Retention p) \<and>
      rl_CPU (rq_Requests (p_Resources p')) =
        (if p_Enabled p \<and> rl_CPU (rq_Requests (p_Resources p)) = [] then ''100m''
         else rl_CPU (rq_Requests (p_Resources p))) \<and>
      rl_Memory (rq_Requests (p_Resources p')) =
        (if p_Enabled p \<and> rl_Memory (rq_Requests (p_Resources p)) = [] then ''256Mi''
         else rl_Memory (rq_Requests (p_Resources p))) \<and>
      p' = p\<lparr>p_Image := p_Image p', p_Tag := p_Tag p',
              p_Service := (p_Service p)
                \<lparr>sv_Port := sv_Port (p_Service p'), sv_Type := sv_Type (p_Service p')\<rparr>,
              p_Retention := p_Retention p',
              p_Resources := (p_Resources p)
                \<lparr>rq_Requests := (rq_Requests (p_Resources p))
                   \<lparr>rl_CPU := rl_CPU (rq_Requests (p_Resources p')),
                    rl_Memory := rl_Memory (rq_Requests (p_Resources p'))\<rparr>\<rparr>\<rparr>"
    using setPrometheusDefaults_frame [of "Prometheus (ms_Spec ms)"]
    by (simp add: Let_def setDefaultValues_Prometheus setPrometheusDefaults_fields)
next
  show "let g = Grafana (ms_Spec ms); g' = Grafana (ms_Spec (setDefaultValues ms)) in
      g_Image g' = (if g_Enabled g \<and> g_Image g = [] then ''grafana/grafana'' else g_Image g) \<and>
      g_Tag g' = (if g_Enabled g \<and> g_Tag g = [] then ''latest'' else g_Tag g) \<and>
      sv_Port (g_Service g') =
        (if g_Enabled g \<and> sv_Port (g_Service g) = 0 then 3000 else sv_Port (g_Service g)) \<and>
      sv_Type (g_Service g') =
        (if g_Enabled g \<and> sv_Type (g_Service g) = [] then ''ClusterIP''
         else sv_Type (g_Service g)) \<and>
      g_AdminPassword g' =
        (if g_Enabled g \<and> g_AdminPassword g = [] then ''admin'' else g_AdminPassword g) \<and>
      rl_CPU (rq_Requests (g_Resources g')) =
        (if g_Enabled g \<and> rl_CPU (rq_Requests (g_Resources g)) = [] then ''100m''
         else rl_CPU (rq_Requests (g_Resources g))) \<and>
      rl_Memory (rq_Requests (g_Resources g')) =
        (if g_Enabled g \<and> rl_Memory (rq_Requests (g_Resources g)) = [] then ''128Mi''
         else rl_Memory (rq_Requests (g_Resources g))) \<and>
      g' = g\<lparr>g_Image := g_Image g', g_Tag := g_Tag g',
              g_Service := (g_Service g)
                \<lparr>sv_Port := sv_Port (g_Service g'), sv_Type := sv_Type (g_Service g')\<rparr>,
              g_AdminPassword := g_AdminPassword g',
              g_Resources := (g_Resources g)
                \<lparr>rq_Requests := (rq_Requests (g_Resources g))
                   \<lparr>rl_CPU := rl_CPU (rq_Requests (g_Resources g')),
                    rl_Memory := rl_Memory (rq_Requests (g_Resources g'))\<rparr>\<rparr>\<rparr>"
    using setGrafanaDefaults_frame [of "Grafana (ms_Spec ms)"]
    by (simp add: Let_def setDefaultValues_Grafana setGrafanaDefaults_fields)
next
  show "setDefaultValues ms =
     ms\<lparr>ms_Spec := (ms_Spec ms)
          \<lparr>Prometheus := Prometheus (ms_Spec (setDefaultValues ms)),
           Grafana := Grafana (ms_Spec (setDefaultValues ms))\<rparr>\<rparr>"
    by (rule setDefaultValues_frame)
next
  show "setDefaultValues (setDefaultValues ms) = setDefaultValues ms"
    by (rule setDefaultValues_idem)
qed

text \<open>The theorem at two stacks: the collector enabled and nothing else set; and a collector
  with an explicit port 8080 and image, and retention unset.\<close>

theorem setDefaultValues_defaults_witness:
  "Prometheus (ms_Spec (setDefaultValues enabledPrometheusOnly)) =
     \<lparr>p_Enabled = True, p_Image = ''prom/prometheus'', p_Tag = ''latest'',
      p_Resources = \<lparr>rq_Limits = \<lparr>rl_CPU = [], rl_Memory = []\<rparr>,
                     rq_Requests = \<lparr>rl_CPU = ''100m'', rl_Memory = ''256Mi''\<rparr>\<rparr>,
      p_Storage = \<lparr>sto_Size = [], sto_StorageClass = []\<rparr>,
      p_Service = \<lparr>sv_Type = ''ClusterIP'', sv_Port = 9090, sv_NodePort = 0,
                   sv_Labels = Map.empty\<rparr>,
      p_Config = [], p_Retention = ''15d''\<rparr> \<and>
   sv_Port (p_Service (Prometheus (ms_Spec (setDefaultValues explicitPortStack)))) = 8080 \<and>
   p_Image (Prometheus (ms_Spec (setDefaultValues explicitPortStack))) = ''quay.io/prometheus'' \<and>
   p_Retention (Prometheus (ms_Spec (setDefaultValues explicitPortStack))) = ''15d'' \<and>
   setDefaultValues (setDefaultValues explicitPortStack) = setDefaultValues explicitPortStack"
proof -
  have h: "Prometheus (ms_Spec enabledPrometheusOnly) = zeroPrometheusSpec\<lparr>p_Enabled := True\<rparr>"
    by (simp add: enabledPrometheusOnly_def)
  from setDefaultValues_defaults [of enabledPrometheusOnly] h
  have 1: "Prometheus (ms_Spec (setDefaultValues enabledPrometheusOnly)) =
     \<lparr>p_Enabled = True, p_Image = ''prom/prometheus'', p_Tag = ''latest'',
      p_Resources = \<lparr>rq_Limits = \<lparr>rl_CPU = [], rl_Memory = []\<rparr>,
                     rq_Requests = \<lparr>rl_CPU = ''100m'', rl_Memory = ''256Mi''\<rparr>\<rparr>,
      p_Storage = \<lparr>sto_Size = [], sto_StorageClass = []\<rparr>,
      p_Service = \<lparr>sv_Type = ''ClusterIP'', sv_Port = 9090, sv_NodePort = 0,
                   sv_Labels = Map.empty\<rparr>,
      p_Config = [], p_Retention = ''15d''\<rparr>"
    by (elim conjE) (erule mp)
  have e: "p_Enabled (Prometheus (ms_Spec explicitPortStack))"
      "sv_Port (p_Service (Prometheus (ms_Spec explicitPortStack))) = 8080"
      "p_Image (Prometheus (ms_Spec explicitPortStack)) = ''quay.io/prometheus''"
      "p_Retention (Prometheus (ms_Spec explicitPortStack)) = []"
    by (simp_all add: explicitPortStack_def zeroMonitorStack_def zeroPrometheusSpec_def
        zeroServiceSpec_def)
  from setDefaultValues_defaults [of explicitPortStack]
  have 2: "sv_Port (p_Service (Prometheus (ms_Spec (setDefaultValues explicitPortStack)))) = 8080 \<and>
   p_Image (Prometheus (ms_Spec (setDefaultValues explicitPortStack))) = ''quay.io/prometheus'' \<and>
   p_Retention (Prometheus (ms_Spec (setDefaultValues explicitPortStack))) = ''15d'' \<and>
   setDefaultValues (setDefaultValues explicitPortStack) = setDefaultValues explicitPortStack"
    by (simp add: Let_def e)
  from 1 2 show ?thesis
    by (rule conjI)
qed

section \<open>What each request does to the cluster\<close>

lemma request_frame [simp]:
  "MonitorStacks (snd (request c w)) = MonitorStacks w"
  "Deployments (snd (request c w)) = Deployments w"
  "Services (snd (request c w)) = Services w"
  "ConfigMaps (snd (request c w)) = ConfigMaps w"
  "PersistentVolumeClaims (snd (request c w)) = PersistentVolumeClaims w"
  "Clock (snd (request c w)) = Clock w"
  "Calls (snd (request c w)) = Calls w @ [c]"
  "Faults (snd (request c w)) = tl (Faults w)"
  "Faults w = [] \<Longrightarrow> fst (request c w) = None"
  by (simp_all add: request_def split: list.split)

lemma GetMonitorStack_frame [simp]:
  "MonitorStacks (snd (GetMonitorStack key w)) = MonitorStacks w"
  "Deployments (snd (GetMonitorStack key w)) = Deployments w"
  "Services (snd (GetMonitorStack key w)) = Services w"
  "ConfigMaps (snd (GetMonitorStack key w)) = ConfigMaps w"
  "PersistentVolumeClaims (snd (GetMonitorStack key w)) = PersistentVolumeClaims w"
  "Clock (snd (GetMonitorStack key w)) = Clock w"
  "Calls (snd (GetMonitorStack key w)) = Calls w @ [(VGet, KMonitorStack, key)]"
  "Faults (snd (GetMonitorStack key w)) = tl (Faults w)"
  by (simp_all add: GetMonitorStack_def split_beta split: option.split)

lemma GetDeployment_frame [simp]:
  "MonitorStacks (snd (GetDeployment key w)) = MonitorStacks w"
  "Deployments (snd (GetDeployment key w)) = Deployments w"
  "Services (snd (GetDeployment key w)) = Services w"
  "ConfigMaps (snd (GetDeployment key w)) = ConfigMaps w"
  "PersistentVolumeClaims (snd (GetDeployment key w)) = PersistentVolumeClaims w"
  "Clock (snd (GetDeployment key w)) = Clock w"
  "Calls (snd (GetDeployment key w)) = Calls w @ [(VGet, KDeployment, key)]"
  "Faults (snd (GetDeployment key w)) = tl (Faults w)"
  by (simp_all add: GetDeployment_def split_beta split: option.split)

lemma GetService_frame [simp]:
  "MonitorStacks (snd (GetService key w)) = MonitorStacks w"
  "Deployments (snd (GetService key w)) = Deployments w"
  "Services (snd (GetService key w)) = Services w"
  "ConfigMaps (snd (GetService key w)) = ConfigMaps w"
  "PersistentVolumeClaims (snd (GetService key w)) = PersistentVolumeClaims w"
  "Clock (snd (GetService key w)) = Clock w"
  "Calls (snd (GetService key w)) = Calls w @ [(VGet, KService, key)]"
  "Faults (snd (GetService key w)) = tl (Faults w)"
  by (simp_all add: GetService_def split_beta split: option.split)

lemma GetConfigMap_frame [simp]:
  "MonitorStacks (snd (GetConfigMap key w)) = MonitorStacks w"
  "Deployments (snd (GetConfigMap key w)) = Deployments w"
  "Services (snd (GetConfigMap key w)) = Services w"
  "ConfigMaps (snd (GetConfigMap key w)) = ConfigMaps w"
  "PersistentVolumeClaims (snd (GetConfigMap key w)) = PersistentVolumeClaims w"
  "Clock (snd (GetConfigMap key w)) = Clock w"
  "Calls (snd (GetConfigMap key w)) = Calls w @ [(VGet, KConfigMap, key)]"
  "Faults (snd (GetConfigMap key w)) = tl (Faults w)"
  by (simp_all add: GetConfigMap_def split_beta split: option.split)

lemma GetPersistentVolumeClaim_frame [simp]:
  "MonitorStacks (snd (GetPersistentVolumeClaim key w)) = MonitorStacks w"
  "Deployments (snd (GetPersistentVolumeClaim key w)) = Deployments w"
  "Services (snd (GetPersistentVolumeClaim key w)) = Services w"
  "ConfigMaps (snd (GetPersistentVolumeClaim key w)) = ConfigMaps w"
  "PersistentVolumeClaims (snd (GetPersistentVolumeClaim key w)) = PersistentVolumeClaims w"
  "Clock (snd (GetPersistentVolumeClaim key w)) = Clock w"
  "Calls (snd (GetPersistentVolumeClaim key w)) =
     Calls w @ [(VGet, KPersistentVolumeClaim, key)]"
  "Faults (snd (GetPersistentVolumeClaim key w)) = tl (Faults w)"
  by (simp_all add: GetPersistentVolumeClaim_def split_beta split: option.split)


lemma UpdateMonitorStack_frame [simp]:
  "Deployments (snd (UpdateMonitorStack obj w)) = Deployments w"
  "Services (snd (UpdateMonitorStack obj w)) = Services w"
  "ConfigMaps (snd (UpdateMonitorStack obj w)) = ConfigMaps w"
  "PersistentVolumeClaims (snd (UpdateMonitorStack obj w)) = PersistentVolumeClaims w"
  "Clock (snd (UpdateMonitorStack obj w)) = Clock w"
  "Calls (snd (UpdateMonitorStack obj w)) = Calls w @ [(VUpdate, KMonitorStack, stackKey obj)]"
  "Faults (snd (UpdateMonitorStack obj w)) = tl (Faults w)"
  by (simp_all add: UpdateMonitorStack_def split_beta split: option.split)

lemma StatusUpdate_frame [simp]:
  "Deployments (snd (StatusUpdate obj w)) = Deployments w"
  "Services (snd (StatusUpdate obj w)) = Services w"
  "ConfigMaps (snd (StatusUpdate obj w)) = ConfigMaps w"
  "PersistentVolumeClaims (snd (StatusUpdate obj w)) = PersistentVolumeClaims w"
  "Clock (snd (StatusUpdate obj w)) = Clock w"
  "Calls (snd (StatusUpdate obj w)) = Calls w @ [(VStatusUpdate, KMonitorStack, stackKey obj)]"
  "Faults (snd (StatusUpdate obj w)) = tl (Faults w)"
  by (simp_all add: StatusUpdate_def split_beta split: option.split)

lemma StatusUpdate_store:
  "MonitorStacks (snd (StatusUpdate obj w)) =
     (case fst (StatusUpdate obj w) of
        Some err \<Rightarrow> MonitorStacks w
      | None \<Rightarrow>
          (MonitorStacks w)(stackKey obj \<mapsto>
             (the (MonitorStacks w (stackKey obj)))\<lparr>ms_Status := ms_Status obj\<rparr>))"
  by (simp add: StatusUpdate_def split_beta notFound_def split: option.split)

lemma CreateDeployment_frame [simp]:
  "MonitorStacks (snd (CreateDeployment obj w)) = MonitorStacks w"
  "Services (snd (CreateDeployment obj w)) = Services w"
  "ConfigMaps (snd (CreateDeployment obj w)) = ConfigMaps w"
  "PersistentVolumeClaims (snd (CreateDeployment obj w)) = PersistentVolumeClaims w"
  "Clock (snd (CreateDeployment obj w)) = Clock w"
  "Calls (snd (CreateDeployment obj w)) = Calls w @ [(VCreate, KDeployment, metaKey (dep_Meta obj))]"
  "Faults (snd (CreateDeployment obj w)) = tl (Faults w)"
  "key \<noteq> metaKey (dep_Meta obj) \<Longrightarrow>
     Deployments (snd (CreateDeployment obj w)) key = Deployments w key"
  by (simp_all add: CreateDeployment_def split_beta split: option.split)

lemma UpdateDeployment_frame [simp]:
  "MonitorStacks (snd (UpdateDeployment obj w)) = MonitorStacks w"
  "Services (snd (UpdateDeployment obj w)) = Services w"
  "ConfigMaps (snd (UpdateDeployment obj w)) = ConfigMaps w"
  "PersistentVolumeClaims (snd (UpdateDeployment obj w)) = PersistentVolumeClaims w"
  "Clock (snd (UpdateDeployment obj w)) = Clock w"
  "Calls (snd (UpdateDeployment obj w)) = Calls w @ [(VUpdate, KDeployment, metaKey (dep_Meta obj))]"
  "Faults (snd (UpdateDeployment obj w)) = tl (Faults w)"
  "key \<noteq> metaKey (dep_Meta obj) \<Longrightarrow>
     Deployments (snd (UpdateDeployment obj w)) key = Deployments w key"
  by (simp_all add: UpdateDeployment_def split_beta split: option.split)

lemma DeleteDeployment_frame [simp]:
  "MonitorStacks (snd (DeleteDeployment obj w)) = MonitorStacks w"
  "Services (snd (DeleteDeployment obj w)) = Services w"
  "ConfigMaps (snd (DeleteDeployment obj w)) = ConfigMaps w"
  "PersistentVolumeClaims (snd (DeleteDeployment obj w)) = PersistentVolumeClaims w"
  "Clock (snd (DeleteDeployment obj w)) = Clock w"
  "Calls (snd (DeleteDeployment obj w)) = Calls w @ [(VDelete, KDeployment, metaKey (dep_Meta obj))]"
  "Faults (snd (DeleteDeployment obj w)) = tl (Faults w)"
  "key \<noteq> metaKey (dep_Meta obj) \<Longrightarrow>
     Deployments (snd (DeleteDeployment obj w)) key = Deployments w key"
  by (simp_all add: DeleteDeployment_def split_beta split: option.split)

lemma CreateService_frame [simp]:
  "MonitorStacks (snd (CreateService obj w)) = MonitorStacks w"
  "Deployments (snd (CreateService obj w)) = Deployments w"
  "ConfigMaps (snd (CreateService obj w)) = ConfigMaps w"
  "PersistentVolumeClaims (snd (CreateService obj w)) = PersistentVolumeClaims w"
  "Clock (snd (CreateService obj w)) = Clock w"
  "Calls (snd (CreateService obj w)) = Calls w @ [(VCreate, KService, metaKey (svc_Meta obj))]"
  "Faults (snd (CreateService obj w)) = tl (Faults w)"
  "key \<noteq> metaKey (svc_Meta obj) \<Longrightarrow>
     Services (snd (CreateService obj w)) key = Services w key"
  by (simp_all add: CreateService_def split_beta split: option.split)

lemma UpdateService_frame [simp]:
  "MonitorStacks (snd (UpdateService obj w)) = MonitorStacks w"
  "Deployments (snd (UpdateService obj w)) = Deployments w"
  "ConfigMaps (snd (UpdateService obj w)) = ConfigMaps w"
  "PersistentVolumeClaims (snd (UpdateService obj w)) = PersistentVolumeClaims w"
  "Clock (snd (UpdateService obj w)) = Clock w"
  "Calls (snd (UpdateService obj w)) = Calls w @ [(VUpdate, KService, metaKey (svc_Meta obj))]"
  "Faults (snd (UpdateService obj w)) = tl (Faults w)"
  "key \<noteq> metaKey (svc_Meta obj) \<Longrightarrow>
     Services (snd (UpdateService obj w)) key = Services w key"
  by (simp_all add: UpdateService_def split_beta split: option.split)

lemma DeleteService_frame [simp]:
  "MonitorStacks (snd (DeleteService obj w)) = MonitorStacks w"
  "Deployments (snd (DeleteService obj w)) = Deployments w"
  "ConfigMaps (snd (DeleteService obj w)) = ConfigMaps w"
  "PersistentVolumeClaims (snd (DeleteService obj w)) = PersistentVolumeClaims w"
  "Clock (snd (DeleteService obj w)) = Clock w"
  "Calls (snd (DeleteService obj w)) = Calls w @ [(VDelete, KService, metaKey (svc_Meta obj))]"
  "Faults (snd (DeleteService obj w)) = tl (Faults w)"
  "key \<noteq> metaKey (svc_Meta obj) \<Longrightarrow>
     Services (snd (DeleteService obj w)) key = Services w key"
  by (simp_all add: DeleteService_def split_beta split: option.split)

lemma CreateConfigMap_frame [simp]:
  "MonitorStacks (snd (CreateConfigMap obj w)) = MonitorStacks w"
  "Deployments (snd (CreateConfigMap obj w)) = Deployments w"
  "Services (snd (CreateConfigMap obj w)) = Services w"
  "PersistentVolumeClaims (snd (CreateConfigMap obj w)) = PersistentVolumeClaims w"
  "Clock (snd (CreateConfigMap obj w)) = Clock w"
  "Calls (snd (CreateConfigMap obj w)) = Calls w @ [(VCreate, KConfigMap, metaKey (cm_Meta obj))]"
  "Faults (snd (CreateConfigMap obj w)) = tl (Faults w)"
  by (simp_all add: CreateConfigMap_def split_beta split: option.split)

lemma UpdateConfigMap_frame [simp]:
  "MonitorStacks (snd (UpdateConfigMap obj w)) = MonitorStacks w"
  "Deployments (snd (UpdateConfigMap obj w)) = Deployments w"
  "Services (snd (UpdateConfigMap obj w)) = Services w"
  "PersistentVolumeClaims (snd (UpdateConfigMap obj w)) = PersistentVolumeClaims w"
  "Clock (snd (UpdateConfigMap obj w)) = Clock w"
  "Calls (snd (UpdateConfigMap obj w)) = Calls w @ [(VUpdate, KConfigMap, metaKey (cm_Meta obj))]"
  "Faults (snd (UpdateConfigMap obj w)) = tl (Faults w)"
  by (simp_all add: UpdateConfigMap_def split_beta split: option.split)

lemma DeleteConfigMap_frame [simp]:
  "MonitorStacks (snd (DeleteConfigMap obj w)) = MonitorStacks w"
  "Deployments (snd (DeleteConfigMap obj w)) = Deployments w"
  "Services (snd (DeleteConfigMap obj w)) = Services w"
  "PersistentVolumeClaims (snd (DeleteConfigMap obj w)) = PersistentVolumeClaims w"
  "Clock (snd (DeleteConfigMap obj w)) = Clock w"
  "Calls (snd (DeleteConfigMap obj w)) = Calls w @ [(VDelete, KConfigMap, metaKey (cm_Meta obj))]"
  "Faults (snd (DeleteConfigMap obj w)) = tl (Faults w)"
  by (simp_all add: DeleteConfigMap_def split_beta split: option.split)

lemma CreatePersistentVolumeClaim_frame [simp]:
  "MonitorStacks (snd (CreatePersistentVolumeClaim obj w)) = MonitorStacks w"
  "Deployments (snd (CreatePersistentVolumeClaim obj w)) = Deployments w"
  "Services (snd (CreatePersistentVolumeClaim obj w)) = Services w"
  "ConfigMaps (snd (CreatePersistentVolumeClaim obj w)) = ConfigMaps w"
  "Clock (snd (CreatePersistentVolumeClaim obj w)) = Clock w"
  "Calls (snd (CreatePersistentVolumeClaim obj w)) =
     Calls w @ [(VCreate, KPersistentVolumeClaim, metaKey (pvc_Meta obj))]"
  "Faults (snd (CreatePersistentVolumeClaim obj w)) = tl (Faults w)"
  "PersistentVolumeClaims w key = Some old \<Longrightarrow>
     PersistentVolumeClaims (snd (CreatePersistentVolumeClaim obj w)) key = Some old"
  by (auto simp: CreatePersistentVolumeClaim_def split_beta split: option.split)

section \<open>The status aggregator\<close>

lemma stackKey_simps [simp]:
  "stackKey (ms\<lparr>ms_Status := s\<rparr>) = stackKey ms"
  "stackKey (ms\<lparr>ms_Finalizers := f\<rparr>) = stackKey ms"
  by (simp_all add: stackKey_def)

text \<open>
  Claim C2.  \<open>updateOverallStatus\<close> sets the phase to \<open>Ready\<close> exactly when each
  subsystem is disabled or has \<open>ready\<close> true, and to \<open>Pending\<close> exactly otherwise; it
  never sets \<open>Failed\<close>; it stamps \<open>lastUpdated\<close> with the current time and leaves the
  two component statuses alone; when the status write succeeds the stored status is the
  one just computed, and when it fails the stored stacks are unchanged.
\<close>

theorem updateOverallStatus_phase:
  "(case updateOverallStatus ms w of
      ((e, ms'), w') \<Rightarrow>
        (Phase (ms_Status ms') = ''Ready'' \<longleftrightarrow>
           (\<not> p_Enabled (Prometheus (ms_Spec ms)) \<or> cs_Ready (PrometheusStatus (ms_Status ms))) \<and>
           (\<not> g_Enabled (Grafana (ms_Spec ms)) \<or> cs_Ready (GrafanaStatus (ms_Status ms)))) \<and>
        (Phase (ms_Status ms') = ''Pending'' \<longleftrightarrow>
           \<not> ((\<not> p_Enabled (Prometheus (ms_Spec ms)) \<or>
                cs_Ready (PrometheusStatus (ms_Status ms))) \<and>
               (\<not> g_Enabled (Grafana (ms_Spec ms)) \<or>
                cs_Ready (GrafanaStatus (ms_Status ms))))) \<and>
        Phase (ms_Status ms') \<noteq> ''Failed'' \<and>
        LastUpdated (ms_Status ms') = Clock w \<and>
        PrometheusStatus (ms_Status ms') = PrometheusStatus (ms_Status ms) \<and>
        GrafanaStatus (ms_Status ms') = GrafanaStatus (ms_Status ms) \<and>
        (e = None \<longrightarrow>
           map_option ms_Status (MonitorStacks w' (stackKey ms)) = Some (ms_Status ms')) \<and>
        (e \<noteq> None \<longrightarrow> MonitorStacks w' = MonitorStacks w))"
  apply (simp add: updateOverallStatus_def Let_def split_beta)
  apply (simp add: StatusUpdate_store stackKey_def split: option.split)
  done

text \<open>The witness: collector enabled and ready, dashboard enabled and not ready, at
  time 7.  The phase is \<open>Pending\<close>, in memory and in the store.\<close>

theorem updateOverallStatus_phase_witness:
  "Phase (ms_Status (snd (fst (updateOverallStatus halfReadyStack halfReadyWorld)))) = ''Pending'' \<and>
   map_option (\<lambda>s. (Phase (ms_Status s), LastUpdated (ms_Status s)))
     (MonitorStacks (snd (updateOverallStatus halfReadyStack halfReadyWorld))
        (stackKey halfReadyStack)) = Some (''Pending'', 7)"
proof -
  have e: "fst (fst (updateOverallStatus halfReadyStack halfReadyWorld)) = None"
    by (simp add: updateOverallStatus_def Let_def split_beta StatusUpdate_def request_def
        halfReadyWorld_def emptyWorld_def)
  have c: "Clock halfReadyWorld = 7"
    by (simp add: halfReadyWorld_def emptyWorld_def)
  have s: "p_Enabled (Prometheus (ms_Spec halfReadyStack))"
      "g_Enabled (Grafana (ms_Spec halfReadyStack))"
      "\<not> cs_Ready (GrafanaStatus (ms_Status halfReadyStack))"
    by (simp_all add: halfReadyStack_def zeroMonitorStackStatus_def zeroComponentStatus_def)
  from updateOverallStatus_phase [where ms = halfReadyStack and w = halfReadyWorld] e c s
  show ?thesis
    by (auto simp: split_beta)
qed

section \<open>The durable-storage claim is created, never changed\<close>

lemma SetControllerReference_fresh:
  "om_Controller meta = None \<Longrightarrow> om_Namespace meta = ms_Namespace ms \<Longrightarrow>
   SetControllerReference r ms meta =
     (if Scheme r then Inr (meta\<lparr>om_Controller := Some (ms_Name ms)\<rparr>)
      else Inl (Errorf ''no kind is registered for the type v1.MonitorStack''))"
  by (simp add: SetControllerReference_def)

lemma IsNotFound_notFound [simp]: "IsNotFound notFound"
  by (simp add: notFound_def)



lemma collectorStack_simps [simp]:
  "ms_Name collectorStack = ''acme''"
  "ms_Namespace collectorStack = ''monitoring''"
  "p_Enabled (Prometheus (ms_Spec collectorStack))"
  "\<not> g_Enabled (Grafana (ms_Spec collectorStack))"
  "sto_Size (p_Storage (Prometheus (ms_Spec collectorStack))) = []"
  "sv_Port (p_Service (Prometheus (ms_Spec collectorStack))) = 9090"
  "ms_DeletionTimestamp collectorStack = None"
  "ms_Finalizers collectorStack = [finalizerName]"
  "Phase (ms_Status collectorStack) = ''Ready''"
  "cs_Endpoint (PrometheusStatus (ms_Status collectorStack)) = ''http://acme-prometheus:9090''"
  "cs_Ready (PrometheusStatus (ms_Status collectorStack))"
  by (simp_all add: collectorStack_def acmeStack_def zeroMonitorStack_def zeroPrometheusSpec_def
     zeroGrafanaSpec_def zeroServiceSpec_def zeroMonitorStackStatus_def)


section \<open>Runs of the reconciler on concrete clusters\<close>

lemmas run_defs =
  Reconcile_def Reconcile_init_def Reconcile_prometheus_def Reconcile_grafana_def
  handleDeletion_def cleanupPrometheusResources_def cleanupGrafanaResources_def
  updateOverallStatus_def reconcilePrometheus_def createPrometheusConfigMap_def
  createPrometheusDeployment_def createPrometheusService_def applyDeployment_def
  applyService_def SetControllerReference_fresh buildPrometheusService_def
  ContainsFinalizer_def RemoveFinalizer_def observe_def
  GetMonitorStack_def UpdateMonitorStack_def StatusUpdate_def
  GetDeployment_def CreateDeployment_def UpdateDeployment_def DeleteDeployment_def
  GetService_def CreateService_def UpdateService_def DeleteService_def
  GetConfigMap_def CreateConfigMap_def UpdateConfigMap_def DeleteConfigMap_def
  request_def notFound_def metaKey_def stackKey_def Let_def name_defs

lemma deletingStack_simps [simp]:
  "ms_Name deletingStack = ''acme''"
  "ms_Namespace deletingStack = ''monitoring''"
  "ms_DeletionTimestamp deletingStack = Some 5"
  "ms_Finalizers deletingStack = [finalizerName]"
  by (simp_all add: deletingStack_def)

lemma pendingStack_simps [simp]:
  "ms_Name pendingStack = ''acme''"
  "ms_Namespace pendingStack = ''monitoring''"
  "p_Enabled (Prometheus (ms_Spec pendingStack))"
  "\<not> g_Enabled (Grafana (ms_Spec pendingStack))"
  "sto_Size (p_Storage (Prometheus (ms_Spec pendingStack))) = []"
  "sv_Port (p_Service (Prometheus (ms_Spec pendingStack))) = 9090"
  "ms_DeletionTimestamp pendingStack = None"
  "ms_Finalizers pendingStack = [finalizerName]"
  "Phase (ms_Status pendingStack) = ''Pending''"
  "PrometheusStatus (ms_Status pendingStack) = zeroComponentStatus"
  "GrafanaStatus (ms_Status pendingStack) = zeroComponentStatus"
  by (simp_all add: pendingStack_def zeroMonitorStackStatus_def)

lemma Scheme_reconciler [simp]: "Scheme reconciler"
  by (simp add: reconciler_def)

lemma buildPrometheusDeployment_collectorStack:
  "\<exists>d. buildPrometheusDeployment reconciler collectorStack = Return d \<and>
    dep_Meta d = \<lparr>om_Name = ''acme-prometheus'', om_Namespace = ''monitoring'',
                  om_Labels = getLabels collectorStack ''prometheus'', om_Controller = None\<rparr>"
  by (simp add: buildPrometheusDeployment_def buildResourceRequirements_def buildResourceList_def
      Let_def addPrometheusDataVolume_def addVolume_def getPrometheusName_def
      collectorStack_def acmeStack_def zeroMonitorStack_def zeroPrometheusSpec_def
      zeroResourceRequirements_def zeroResourceList_def)

lemma buildPrometheusDeployment_pendingStack:
  "\<exists>d. buildPrometheusDeployment reconciler pendingStack = Return d \<and>
    dep_Meta d = \<lparr>om_Name = ''acme-prometheus'', om_Namespace = ''monitoring'',
                  om_Labels = getLabels pendingStack ''prometheus'', om_Controller = None\<rparr>"
  by (simp add: buildPrometheusDeployment_def buildResourceRequirements_def buildResourceList_def
      Let_def addPrometheusDataVolume_def addVolume_def getPrometheusName_def
      pendingStack_def collectorStack_def acmeStack_def zeroMonitorStack_def
      zeroPrometheusSpec_def zeroResourceRequirements_def zeroResourceList_def)

text \<open>
  Claim C3 on the code.  The stack \<open>acme\<close> is marked for deletion and the delete of its
  collector deployment fails with a server error.  The claim asks for a retry after a
  short interval with the finalizer kept.  The invocation returns no error and no requeue,
  the finalizer is removed (the stack is gone from the store) and the deployment is still
  there: \<open>cleanupPrometheusResources\<close> drops the result of the delete.
\<close>

theorem handleDeletion_swallows_delete_failure:
  "(case Reconcile reconciler (''monitoring'', ''acme'') failingDeleteWorld of
      (out, w') \<Rightarrow>
        out = Return (\<lparr>RequeueAfter = 0\<rparr>, None) \<and>
        MonitorStacks w' (''monitoring'', ''acme'') = None \<and>
        Deployments w' (''monitoring'', ''acme-prometheus'') = Some unreadyDeployment \<and>
        Calls w' =
          [(VGet, KMonitorStack, (''monitoring'', ''acme'')),
           (VGet, KDeployment, (''monitoring'', ''acme-prometheus'')),
           (VDelete, KDeployment, (''monitoring'', ''acme-prometheus'')),
           (VGet, KService, (''monitoring'', ''acme-prometheus'')),
           (VGet, KConfigMap, (''monitoring'', ''acme-prometheus-config'')),
           (VGet, KDeployment, (''monitoring'', ''acme-grafana'')),
           (VGet, KService, (''monitoring'', ''acme-grafana'')),
           (VUpdate, KMonitorStack, (''monitoring'', ''acme''))])"
  by (simp add: run_defs failingDeleteWorld_def emptyWorld_def unreadyDeployment_def
      cong: prod.case_cong_weak let_weak_cong)

text \<open>The cleanups return nil whatever the requests answer, so the retry branches of
  \<open>handleDeletion\<close> are never taken.\<close>

lemma cleanup_returns_nil:
  "fst (cleanupPrometheusResources ms w) = None"
  "fst (cleanupGrafanaResources ms w) = None"
  "RequeueAfter (fst (fst (handleDeletion ms w))) = 0"
  by (simp_all add: cleanupPrometheusResources_def cleanupGrafanaResources_def
      handleDeletion_def Let_def split_beta)

text \<open>A reconciliation that sees a ready replica publishes the endpoint.\<close>

lemma Reconcile_publishes_endpoint:
  "(case Reconcile reconciler (''monitoring'', ''acme'') healthyWorld of
      (out, w') \<Rightarrow>
        out = Return (\<lparr>RequeueAfter = 300\<rparr>, None) \<and>
        collectorSummary w' = Some (''Ready'', True, ''http://acme-prometheus:9090''))"
proof -
  obtain d where d: "buildPrometheusDeployment reconciler pendingStack = Return d"
     "dep_Meta d = \<lparr>om_Name = ''acme-prometheus'', om_Namespace = ''monitoring'',
                  om_Labels = getLabels pendingStack ''prometheus'', om_Controller = None\<rparr>"
    using buildPrometheusDeployment_pendingStack by blast
  show ?thesis
    by (simp add: run_defs d collectorSummary_def healthyWorld_def emptyWorld_def
        readyDeployment_def unreadyDeployment_def zeroComponentStatus_def show_int_def
        show_nat.simps cong: prod.case_cong_weak let_weak_cong)
qed

text \<open>
  Claim C7 on the code.  The stored status of \<open>acme\<close> says ready, with the endpoint
  published by an earlier reconciliation; the deployment now has no ready replica.  After
  the reconciliation the stored status says not ready and still carries the endpoint:
  the branch for zero ready replicas sets the message and leaves the endpoint alone.
\<close>

theorem Reconcile_stale_endpoint:
  "(case Reconcile reconciler (''monitoring'', ''acme'') degradedWorld of
      (out, w') \<Rightarrow>
        out = Return (\<lparr>RequeueAfter = 300\<rparr>, None) \<and>
        collectorSummary degradedWorld = Some (''Ready'', True, ''http://acme-prometheus:9090'') \<and>
        collectorSummary w' = Some (''Pending'', False, ''http://acme-prometheus:9090''))"
proof -
  obtain d where d: "buildPrometheusDeployment reconciler collectorStack = Return d"
     "dep_Meta d = \<lparr>om_Name = ''acme-prometheus'', om_Namespace = ''monitoring'',
                  om_Labels = getLabels collectorStack ''prometheus'', om_Controller = None\<rparr>"
    using buildPrometheusDeployment_collectorStack by blast
  show ?thesis
    by (simp add: run_defs d collectorSummary_def degradedWorld_def emptyWorld_def
        unreadyDeployment_def cong: prod.case_cong_weak let_weak_cong)
qed

section \<open>No operation deletes a durable-storage claim\<close>

lemma claimsKept_refl [simp]: "claimsKept w w"
  by (simp add: claimsKept_def)

lemma claimsKept_snd:
  "claimsKept w0 w \<Longrightarrow> claimsKept w0 (snd (GetMonitorStack key w))"
  "claimsKept w0 w \<Longrightarrow> claimsKept w0 (snd (UpdateMonitorStack ms w))"
  "claimsKept w0 w \<Longrightarrow> claimsKept w0 (snd (StatusUpdate ms w))"
  "claimsKept w0 w \<Longrightarrow> claimsKept w0 (snd (GetDeployment key w))"
  "claimsKept w0 w \<Longrightarrow> claimsKept w0 (snd (CreateDeployment d w))"
  "claimsKept w0 w \<Longrightarrow> claimsKept w0 (snd (UpdateDeployment d w))"
  "claimsKept w0 w \<Longrightarrow> claimsKept w0 (snd (DeleteDeployment d w))"
  "claimsKept w0 w \<Longrightarrow> claimsKept w0 (snd (GetService key w))"
  "claimsKept w0 w \<Longrightarrow> claimsKept w0 (snd (CreateService s w))"
  "claimsKept w0 w \<Longrightarrow> claimsKept w0 (snd (UpdateService s w))"
  "claimsKept w0 w \<Longrightarrow> claimsKept w0 (snd (DeleteService s w))"
  "claimsKept w0 w \<Longrightarrow> claimsKept w0 (snd (GetConfigMap key w))"
  "claimsKept w0 w \<Longrightarrow> claimsKept w0 (snd (CreateConfigMap c w))"
  "claimsKept w0 w \<Longrightarrow> claimsKept w0 (snd (UpdateConfigMap c w))"
  "claimsKept w0 w \<Longrightarrow> claimsKept w0 (snd (DeleteConfigMap c w))"
  "claimsKept w0 w \<Longrightarrow> claimsKept w0 (snd (GetPersistentVolumeClaim key w))"
  "claimsKept w0 w \<Longrightarrow> claimsKept w0 (snd (CreatePersistentVolumeClaim p w))"
  by (simp_all add: claimsKept_def isClaimDelete_def)

lemma claimsKept_client:
  "GetMonitorStack key w = (x1, w') \<Longrightarrow> claimsKept w0 w \<Longrightarrow> claimsKept w0 w'"
  "UpdateMonitorStack ms w = (e, w') \<Longrightarrow> claimsKept w0 w \<Longrightarrow> claimsKept w0 w'"
  "StatusUpdate ms w = (e, w') \<Longrightarrow> claimsKept w0 w \<Longrightarrow> claimsKept w0 w'"
  "GetDeployment key w = (x2, w') \<Longrightarrow> claimsKept w0 w \<Longrightarrow> claimsKept w0 w'"
  "CreateDeployment d w = (e, w') \<Longrightarrow> claimsKept w0 w \<Longrightarrow> claimsKept w0 w'"
  "UpdateDeployment d w = (e, w') \<Longrightarrow> claimsKept w0 w \<Longrightarrow> claimsKept w0 w'"
  "DeleteDeployment d w = (e, w') \<Longrightarrow> claimsKept w0 w \<Longrightarrow> claimsKept w0 w'"
  "GetService key w = (x3, w') \<Longrightarrow> claimsKept w0 w \<Longrightarrow> claimsKept w0 w'"
  "CreateService s w = (e, w') \<Longrightarrow> claimsKept w0 w \<Longrightarrow> claimsKept w0 w'"
  "UpdateService s w = (e, w') \<Longrightarrow> claimsKept w0 w \<Longrightarrow> claimsKept w0 w'"
  "DeleteService s w = (e, w') \<Longrightarrow> claimsKept w0 w \<Longrightarrow> claimsKept w0 w'"
  "GetConfigMap key w = (x4, w') \<Longrightarrow> claimsKept w0 w \<Longrightarrow> claimsKept w0 w'"
  "CreateConfigMap c w = (e, w') \<Longrightarrow> claimsKept w0 w \<Longrightarrow> claimsKept w0 w'"
  "UpdateConfigMap c w = (e, w') \<Longrightarrow> claimsKept w0 w \<Longrightarrow> claimsKept w0 w'"
  "DeleteConfigMap c w = (e, w') \<Longrightarrow> claimsKept w0 w \<Longrightarrow> claimsKept w0 w'"
  "GetPersistentVolumeClaim key w = (x5, w') \<Longrightarrow> claimsKept w0 w \<Longrightarrow> claimsKept w0 w'"
  "CreatePersistentVolumeClaim p w = (e, w') \<Longrightarrow> claimsKept w0 w \<Longrightarrow> claimsKept w0 w'"
  using claimsKept_snd [of w0 w] by (metis snd_conv)+

lemmas result_splits = prod.splits option.splits outcome.splits sum.splits if_splits

lemma claimsKept_configMaps:
  "createPrometheusConfigMap r ms w = (e, w') \<Longrightarrow> claimsKept w0 w \<Longrightarrow> claimsKept w0 w'"
  "createGrafanaDatasourcesConfigMap r ms w = (e, w') \<Longrightarrow> claimsKept w0 w \<Longrightarrow>
     claimsKept w0 w'"
  by (auto simp: createPrometheusConfigMap_def createGrafanaDatasourcesConfigMap_def Let_def
      split: result_splits dest: claimsKept_client)

lemma claimsKept_createPrometheusPVC:
  "createPrometheusPVC r ms w = (out, w') \<Longrightarrow> claimsKept w0 w \<Longrightarrow> claimsKept w0 w'"
  by (auto simp: createPrometheusPVC_def Let_def split: result_splits dest: claimsKept_client)

lemma claimsKept_apply:
  "applyDeployment r ms d w = (e, w') \<Longrightarrow> claimsKept w0 w \<Longrightarrow> claimsKept w0 w'"
  "applyService r ms s w = (e, w') \<Longrightarrow> claimsKept w0 w \<Longrightarrow> claimsKept w0 w'"
  by (auto simp: applyDeployment_def applyService_def Let_def split: result_splits
      dest: claimsKept_client)

lemma claimsKept_create:
  "createPrometheusDeployment r ms w = (out, w') \<Longrightarrow> claimsKept w0 w \<Longrightarrow> claimsKept w0 w'"
  "createGrafanaDeployment r ms w = (out, w') \<Longrightarrow> claimsKept w0 w \<Longrightarrow> claimsKept w0 w'"
  "createPrometheusService r ms w = (e, w') \<Longrightarrow> claimsKept w0 w \<Longrightarrow> claimsKept w0 w'"
  "createGrafanaService r ms w = (e, w') \<Longrightarrow> claimsKept w0 w \<Longrightarrow> claimsKept w0 w'"
  by (auto simp: createPrometheusDeployment_def createGrafanaDeployment_def
      createPrometheusService_def createGrafanaService_def split: result_splits
      dest: claimsKept_apply)

lemma claimsKept_reconcilePrometheus:
  "reconcilePrometheus r ms w = (out, w') \<Longrightarrow> claimsKept w0 w \<Longrightarrow> claimsKept w0 w'"
  unfolding reconcilePrometheus_def
  by (auto split: result_splits
      dest: claimsKept_configMaps claimsKept_createPrometheusPVC claimsKept_create
        claimsKept_client)

lemma claimsKept_reconcileGrafana:
  "reconcileGrafana r ms w = (out, w') \<Longrightarrow> claimsKept w0 w \<Longrightarrow> claimsKept w0 w'"
  unfolding reconcileGrafana_def
  by (auto split: result_splits
      dest: claimsKept_configMaps claimsKept_create claimsKept_client)

lemma claimsKept_cleanup:
  "cleanupPrometheusResources ms w = (e, w') \<Longrightarrow> claimsKept w0 w \<Longrightarrow> claimsKept w0 w'"
  "cleanupGrafanaResources ms w = (e, w') \<Longrightarrow> claimsKept w0 w \<Longrightarrow> claimsKept w0 w'"
  by (auto simp: cleanupPrometheusResources_def cleanupGrafanaResources_def Let_def
      split: result_splits intro!: claimsKept_snd dest: claimsKept_client)

lemma claimsKept_status:
  "updateStatus ms phase message w = (ms', w') \<Longrightarrow> claimsKept w0 w \<Longrightarrow> claimsKept w0 w'"
  "updateOverallStatus ms w = (x, w') \<Longrightarrow> claimsKept w0 w \<Longrightarrow> claimsKept w0 w'"
  "Reconcile_init ms w = (x, w') \<Longrightarrow> claimsKept w0 w \<Longrightarrow> claimsKept w0 w'"
  by (auto simp: updateStatus_def updateOverallStatus_def Reconcile_init_def Let_def
      split: result_splits intro!: claimsKept_snd dest: claimsKept_client)

lemma claimsKept_handleDeletion:
  "handleDeletion ms w = (x, w') \<Longrightarrow> claimsKept w0 w \<Longrightarrow> claimsKept w0 w'"
  by (auto simp: handleDeletion_def split: result_splits
      dest: claimsKept_cleanup claimsKept_client)

lemma claimsKept_Reconcile_grafana:
  "Reconcile_grafana r ms w = (out, w') \<Longrightarrow> claimsKept w0 w \<Longrightarrow> claimsKept w0 w'"
  unfolding Reconcile_grafana_def
  by (auto split: result_splits
      dest: claimsKept_reconcileGrafana claimsKept_cleanup claimsKept_status)

lemma claimsKept_Reconcile_prometheus:
  "Reconcile_prometheus r ms w = (out, w') \<Longrightarrow> claimsKept w0 w \<Longrightarrow> claimsKept w0 w'"
  unfolding Reconcile_prometheus_def
  by (auto split: result_splits
      dest: claimsKept_reconcilePrometheus claimsKept_cleanup claimsKept_status
        claimsKept_Reconcile_grafana)

lemma claimsKept_Reconcile:
  "Reconcile r req w = (out, w') \<Longrightarrow> claimsKept w0 w \<Longrightarrow> claimsKept w0 w'"
  unfolding Reconcile_def
  by (auto split: result_splits
      dest: claimsKept_client claimsKept_handleDeletion claimsKept_status
         claimsKept_Reconcile_prometheus)

lemma cleanup_claims_unchanged:
  "PersistentVolumeClaims (snd (cleanupPrometheusResources ms w)) = PersistentVolumeClaims w"
  "PersistentVolumeClaims (snd (cleanupGrafanaResources ms w)) = PersistentVolumeClaims w"
  by (simp_all add: cleanupPrometheusResources_def cleanupGrafanaResources_def Let_def
      split_beta split: sum.split)

lemma handleDeletion_claims_unchanged:
  "PersistentVolumeClaims (snd (handleDeletion ms w)) = PersistentVolumeClaims w"
  by (simp add: handleDeletion_def split_beta cleanup_claims_unchanged cleanup_returns_nil)

lemma createPrometheusPVC_owner:
  "PersistentVolumeClaims w key = None \<Longrightarrow>
   PersistentVolumeClaims (snd (createPrometheusPVC r ms w)) key = Some pvc \<Longrightarrow>
   om_Controller (pvc_Meta pvc) = Some (ms_Name ms)"
  by (auto simp: createPrometheusPVC_def Let_def split_beta SetControllerReference_fresh
      CreatePersistentVolumeClaim_def
      split: outcome.splits sum.splits if_splits option.splits)

text \<open>
  Claim C10.  Across any invocation of \<open>Reconcile\<close>, every claim of the cluster is still
  there unchanged and no delete request on a claim has been issued; the deletion protocol
  and the cleanup of a disabled collector leave the store of claims exactly as it was;
  and a claim that \<open>createPrometheusPVC\<close> adds carries the owner reference to its stack,
  which is what the platform's garbage collector acts on.
\<close>

theorem claim_never_deleted:
  "(case Reconcile r req w of (out, w') \<Rightarrow> claimsKept w w') \<and>
   (case handleDeletion ms w of
      (res, w') \<Rightarrow> claimsKept w w' \<and> PersistentVolumeClaims w' = PersistentVolumeClaims w) \<and>
   (case cleanupPrometheusResources ms w of
      (e, w') \<Rightarrow> claimsKept w w' \<and> PersistentVolumeClaims w' = PersistentVolumeClaims w) \<and>
   (case createPrometheusPVC r ms w of
      (out, w') \<Rightarrow>
        (\<forall>key pvc. PersistentVolumeClaims w key = None \<and>
            PersistentVolumeClaims w' key = Some pvc \<longrightarrow>
            om_Controller (pvc_Meta pvc) = Some (ms_Name ms)))"
proof -
  have 1: "case Reconcile r req w of (out, w') \<Rightarrow> claimsKept w w'"
    using claimsKept_Reconcile [of r req w _ _ w] by (cases "Reconcile r req w") simp
  have 2: "case handleDeletion ms w of
      (res, w') \<Rightarrow> claimsKept w w' \<and> PersistentVolumeClaims w' = PersistentVolumeClaims w"
    using claimsKept_handleDeletion [of ms w _ _ w] handleDeletion_claims_unchanged [of ms w]
    by (cases "handleDeletion ms w") simp
  have 3: "case cleanupPrometheusResources ms w of
      (e, w') \<Rightarrow> claimsKept w w' \<and> PersistentVolumeClaims w' = PersistentVolumeClaims w"
    using claimsKept_cleanup(1) [of ms w _ _ w] cleanup_claims_unchanged(1) [of ms w]
    by (cases "cleanupPrometheusResources ms w") simp
  have 4: "case createPrometheusPVC r ms w of
      (out, w') \<Rightarrow>
        (\<forall>key pvc. PersistentVolumeClaims w key = None \<and>
            PersistentVolumeClaims w' key = Some pvc \<longrightarrow>
            om_Controller (pvc_Meta pvc) = Some (ms_Name ms))"
    using createPrometheusPVC_owner [of w _ r ms]
    by (cases "createPrometheusPVC r ms w") auto
  from 1 2 3 4 show ?thesis
    by (intro conjI)
qed

text \<open>The witness: the stack is marked for deletion in a cluster that holds its claim.
  After the invocation the claim is there, and the log holds no delete of a claim.\<close>

theorem claim_never_deleted_witness:
  "PersistentVolumeClaims (snd (Reconcile reconciler (''monitoring'', ''acme'') deletingClaimWorld))
     (''monitoring'', ''acme-prometheus-data'') = Some existingClaim \<and>
   filter isClaimDelete
     (Calls (snd (Reconcile reconciler (''monitoring'', ''acme'') deletingClaimWorld))) = []"
proof -
  have w: "PersistentVolumeClaims deletingClaimWorld (''monitoring'', ''acme-prometheus-data'') =
             Some existingClaim"
      "Calls deletingClaimWorld = []"
    by (simp_all add: deletingClaimWorld_def claimWorld_def emptyWorld_def)
  from claim_never_deleted [where r = reconciler and req = "(''monitoring'', ''acme'')"
      and w = deletingClaimWorld and ms = deletingStack]
  have "claimsKept deletingClaimWorld
          (snd (Reconcile reconciler (''monitoring'', ''acme'') deletingClaimWorld))"
    by (simp add: split_beta)
  with w show ?thesis
    by (simp add: claimsKept_def)
qed

section \<open>Reconcile does not run the normalizer\<close>

lemma StatusUpdate_ok:
  "Faults w = [] \<Longrightarrow> MonitorStacks w (stackKey obj) \<noteq> None \<Longrightarrow>
   fst (StatusUpdate obj w) = None"
  by (auto simp: StatusUpdate_def request_def split_beta split: option.split)

lemma StatusUpdate_calm:
  "Faults w = [] \<Longrightarrow> Faults (snd (StatusUpdate obj w)) = []"
  "MonitorStacks w key \<noteq> None \<Longrightarrow> MonitorStacks (snd (StatusUpdate obj w)) key \<noteq> None"
  by (auto simp: StatusUpdate_def request_def split_beta split: option.split list.split)

lemma cleanup_calm:
  "MonitorStacks (snd (cleanupPrometheusResources ms w)) = MonitorStacks w"
  "MonitorStacks (snd (cleanupGrafanaResources ms w)) = MonitorStacks w"
  "Faults w = [] \<Longrightarrow> Faults (snd (cleanupPrometheusResources ms w)) = []"
  "Faults w = [] \<Longrightarrow> Faults (snd (cleanupGrafanaResources ms w)) = []"
  by (simp_all add: cleanupPrometheusResources_def cleanupGrafanaResources_def Let_def
      split_beta split: sum.split)

lemma Reconcile_init_calm:
  "ms_Spec (snd (fst (Reconcile_init ms w))) = ms_Spec ms"
  "stackKey (snd (fst (Reconcile_init ms w))) = stackKey ms"
  "Faults w = [] \<Longrightarrow> Faults (snd (Reconcile_init ms w)) = []"
  "MonitorStacks w key \<noteq> None \<Longrightarrow> MonitorStacks (snd (Reconcile_init ms w)) key \<noteq> None"
  "Faults w = [] \<Longrightarrow> MonitorStacks w (stackKey ms) \<noteq> None \<Longrightarrow>
     fst (fst (Reconcile_init ms w)) = None"
  by (auto simp: Reconcile_init_def Let_def split_beta StatusUpdate_def request_def
      split: option.split list.split)

text \<open>With both subsystems disabled the aggregator stores phase \<open>Ready\<close>.\<close>

lemma updateOverallStatus_both_disabled:
  assumes "\<not> p_Enabled (Prometheus (ms_Spec ms))" "\<not> g_Enabled (Grafana (ms_Spec ms))"
  shows "fst (fst (updateOverallStatus ms w)) = None \<Longrightarrow>
         phaseAt (snd (updateOverallStatus ms w)) (stackKey ms) = Some ''Ready''"
    and "Faults w = [] \<Longrightarrow> MonitorStacks w (stackKey ms) \<noteq> None \<Longrightarrow>
         fst (fst (updateOverallStatus ms w)) = None"
  using assms
  by (simp_all add: updateOverallStatus_def Let_def split_beta phaseAt_def
      StatusUpdate_store StatusUpdate_ok)

text \<open>The path of \<open>Reconcile\<close> on a live stack that carries the finalizer and has both
  subsystems disabled: step 4, the two cleanups, the aggregator.  No step looks at the
  validity of the spec.\<close>

lemma Reconcile_both_disabled:
  assumes "fst (GetMonitorStack req w) = Inr ms"
    and "ms_DeletionTimestamp ms = None"
    and "ContainsFinalizer ms finalizerName"
    and "\<not> p_Enabled (Prometheus (ms_Spec ms))" "\<not> g_Enabled (Grafana (ms_Spec ms))"
  shows "Reconcile r req w =
     (let i = Reconcile_init ms (snd (GetMonitorStack req w));
          ms1 = snd (fst i);
          w3 = snd (cleanupPrometheusResources ms1 (snd i));
          w4 = snd (cleanupGrafanaResources ms1 w3);
          u = updateOverallStatus ms1 w4
      in case fst (fst i) of
           Some err \<Rightarrow> (Return (\<lparr>RequeueAfter = 0\<rparr>, Some err), snd i)
         | None \<Rightarrow>
             (case fst (fst u) of
                Some err \<Rightarrow> (Return (\<lparr>RequeueAfter = 0\<rparr>, Some err), snd u)
              | None \<Rightarrow> (Return (\<lparr>RequeueAfter = 300\<rparr>, None), snd u)))"
  using assms
  by (simp add: Reconcile_def Reconcile_prometheus_def Reconcile_grafana_def split_beta
      cleanup_returns_nil Reconcile_init_calm Let_def split: option.split)

lemma Reconcile_both_disabled_ready:
  assumes get: "fst (GetMonitorStack req w) = Inr ms"
    and live: "ms_DeletionTimestamp ms = None"
    and fin: "ContainsFinalizer ms finalizerName"
    and off: "\<not> p_Enabled (Prometheus (ms_Spec ms))" "\<not> g_Enabled (Grafana (ms_Spec ms))"
    and calm: "Faults w = []" "MonitorStacks w (stackKey ms) \<noteq> None"
  shows "fst (Reconcile r req w) = Return (\<lparr>RequeueAfter = 300\<rparr>, None)"
    and "phaseAt (snd (Reconcile r req w)) (stackKey ms) = Some ''Ready''"
proof -
  let ?w1 = "snd (GetMonitorStack req w)"
  let ?i = "Reconcile_init ms ?w1"
  let ?ms1 = "snd (fst ?i)"
  let ?w3 = "snd (cleanupPrometheusResources ?ms1 (snd ?i))"
  let ?w4 = "snd (cleanupGrafanaResources ?ms1 ?w3)"
  let ?u = "updateOverallStatus ?ms1 ?w4"
  have c1: "Faults ?w1 = []" "MonitorStacks ?w1 (stackKey ms) \<noteq> None"
    using calm by simp_all
  have i: "fst (fst ?i) = None"
    using c1 by (rule Reconcile_init_calm(5))
  have c2: "Faults (snd ?i) = []" "MonitorStacks (snd ?i) (stackKey ms) \<noteq> None"
    using c1 by (simp_all add: Reconcile_init_calm)
  have c4: "Faults ?w4 = []" "MonitorStacks ?w4 (stackKey ?ms1) \<noteq> None"
    using c2 by (simp_all add: cleanup_calm Reconcile_init_calm)
  have off1: "\<not> p_Enabled (Prometheus (ms_Spec ?ms1))" "\<not> g_Enabled (Grafana (ms_Spec ?ms1))"
    using off by (simp_all add: Reconcile_init_calm)
  have u: "fst (fst ?u) = None"
    using off1 c4 by (rule updateOverallStatus_both_disabled(2))
  have ph: "phaseAt (snd ?u) (stackKey ?ms1) = Some ''Ready''"
    using off1 u by (rule updateOverallStatus_both_disabled(1))
  have R: "Reconcile r req w = (Return (\<lparr>RequeueAfter = 300\<rparr>, None), snd ?u)"
    using Reconcile_both_disabled [OF get live fin off, of r] i u
    by (simp add: Let_def)
  show "fst (Reconcile r req w) = Return (\<lparr>RequeueAfter = 300\<rparr>, None)"
    by (simp add: R)
  show "phaseAt (snd (Reconcile r req w)) (stackKey ms) = Some ''Ready''"
    using ph by (simp add: R Reconcile_init_calm)
qed

lemma idleStack_simps [simp]:
  "ms_Name idleStack = ''acme''"
  "ms_Namespace idleStack = ''monitoring''"
  "ms_DeletionTimestamp idleStack = None"
  "ms_Finalizers idleStack = [finalizerName]"
  "\<not> p_Enabled (Prometheus (ms_Spec idleStack))"
  "\<not> g_Enabled (Grafana (ms_Spec idleStack))"
  "Phase (ms_Status idleStack) = []"
  by (simp_all add: idleStack_def acmeStack_def zeroMonitorStack_def zeroPrometheusSpec_def
      zeroGrafanaSpec_def zeroMonitorStackStatus_def)

text \<open>
  Claim C1 on the code.  The spec of \<open>acme\<close> has both subsystems disabled, so
  \<open>validateMonitorStack\<close> rejects it.  The claim asks for phase \<open>Failed\<close> with the error
  message, and no retry.  \<open>Reconcile\<close> calls neither \<open>validateMonitorStack\<close> nor
  \<open>setDefaultValues\<close>: on a cluster that answers every request, the invocation returns no
  error, asks to be run again in five minutes, and the stored phase is \<open>Ready\<close>.
\<close>

theorem Reconcile_accepts_invalid_spec:
  "validateMonitorStack idleStack =
     Some (Errorf ''at least one component (Prometheus or Grafana) must be enabled'') \<and>
   phaseAt idleWorld (''monitoring'', ''acme'') = Some [] \<and>
   fst (Reconcile reconciler (''monitoring'', ''acme'') idleWorld) =
     Return (\<lparr>RequeueAfter = 300\<rparr>, None) \<and>
   phaseAt (snd (Reconcile reconciler (''monitoring'', ''acme'') idleWorld))
     (''monitoring'', ''acme'') = Some ''Ready''"
proof -
  have v: "validateMonitorStack idleStack =
     Some (Errorf ''at least one component (Prometheus or Grafana) must be enabled'')"
    by (simp add: validateMonitorStack_def)
  have p: "phaseAt idleWorld (''monitoring'', ''acme'') = Some []"
    by (simp add: phaseAt_def idleWorld_def emptyWorld_def)
  have k: "stackKey idleStack = (''monitoring'', ''acme'')"
    by (simp add: stackKey_def)
  have h: "fst (GetMonitorStack (''monitoring'', ''acme'') idleWorld) = Inr idleStack"
      "ms_DeletionTimestamp idleStack = None"
      "ContainsFinalizer idleStack finalizerName"
      "\<not> p_Enabled (Prometheus (ms_Spec idleStack))"
      "\<not> g_Enabled (Grafana (ms_Spec idleStack))"
      "Faults idleWorld = []"
      "MonitorStacks idleWorld (stackKey idleStack) \<noteq> None"
    by (simp_all add: GetMonitorStack_def request_def idleWorld_def emptyWorld_def
        ContainsFinalizer_def stackKey_def)
  from Reconcile_both_disabled_ready [OF h, of reconciler]
  have r: "fst (Reconcile reconciler (''monitoring'', ''acme'') idleWorld) =
       Return (\<lparr>RequeueAfter = 300\<rparr>, None)"
      "phaseAt (snd (Reconcile reconciler (''monitoring'', ''acme'') idleWorld))
         (''monitoring'', ''acme'') = Some ''Ready''"
    by (simp_all add: k)
  from v p r show ?thesis
    by (intro conjI)
qed

section \<open>Disabling the dashboard\<close>

lemma disabledDashboardStack_simps [simp]:
  "ms_Name disabledDashboardStack = ''acme''"
  "ms_Namespace disabledDashboardStack = ''monitoring''"
  "p_Enabled (Prometheus (ms_Spec disabledDashboardStack))"
  "\<not> g_Enabled (Grafana (ms_Spec disabledDashboardStack))"
  "sto_Size (p_Storage (Prometheus (ms_Spec disabledDashboardStack))) = []"
  "sv_Port (p_Service (Prometheus (ms_Spec disabledDashboardStack))) = 9090"
  "ms_DeletionTimestamp disabledDashboardStack = None"
  "ms_Finalizers disabledDashboardStack = [finalizerName]"
  "Phase (ms_Status disabledDashboardStack) = ''Ready''"
  "PrometheusStatus (ms_Status disabledDashboardStack) =
     PrometheusStatus (ms_Status collectorStack)"
  "GrafanaStatus (ms_Status disabledDashboardStack) =
     \<lparr>cs_Ready = True, cs_Replicas = 1, cs_Message = ''Ready'',
      cs_Endpoint = ''http://acme-grafana:3000''\<rparr>"
  by (simp_all add: disabledDashboardStack_def)

lemma buildPrometheusDeployment_disabledDashboardStack:
  "\<exists>d. buildPrometheusDeployment reconciler disabledDashboardStack = Return d \<and>
    dep_Meta d = \<lparr>om_Name = ''acme-prometheus'', om_Namespace = ''monitoring'',
                  om_Labels = getLabels disabledDashboardStack ''prometheus'',
                  om_Controller = None\<rparr>"
  by (simp add: buildPrometheusDeployment_def buildResourceRequirements_def buildResourceList_def
      Let_def addPrometheusDataVolume_def addVolume_def getPrometheusName_def
      disabledDashboardStack_def collectorStack_def acmeStack_def zeroMonitorStack_def
      zeroPrometheusSpec_def zeroResourceRequirements_def zeroResourceList_def)

text \<open>
  Claim C6 on the code.  The dashboard of \<open>acme\<close> was enabled and converged: its deployment
  and its service are in the cluster, and the stored status says ready, with the endpoint.
  The spec now has the dashboard disabled.  After the reconciliation the deployment and
  the service are gone, and the stored status of the dashboard still says ready, one
  replica, with the endpoint of the deleted service: the branch for a disabled dashboard
  runs \<open>cleanupGrafanaResources\<close> and leaves \<open>GrafanaStatus\<close> alone.
\<close>

theorem Reconcile_disabled_dashboard_stays_ready:
  "dashboardStatus disabledDashboardWorld =
     Some \<lparr>cs_Ready = True, cs_Replicas = 1, cs_Message = ''Ready'',
           cs_Endpoint = ''http://acme-grafana:3000''\<rparr> \<and>
   Deployments disabledDashboardWorld (''monitoring'', ''acme-grafana'') = Some grafanaDeployment \<and>
   Services disabledDashboardWorld (''monitoring'', ''acme-grafana'') = Some grafanaService \<and>
   (case Reconcile reconciler (''monitoring'', ''acme'') disabledDashboardWorld of
      (out, w') \<Rightarrow>
        out = Return (\<lparr>RequeueAfter = 300\<rparr>, None) \<and>
        Deployments w' (''monitoring'', ''acme-grafana'') = None \<and>
        Services w' (''monitoring'', ''acme-grafana'') = None \<and>
        dashboardStatus w' =
          Some \<lparr>cs_Ready = True, cs_Replicas = 1, cs_Message = ''Ready'',
                cs_Endpoint = ''http://acme-grafana:3000''\<rparr>)"
proof -
  obtain d where d: "buildPrometheusDeployment reconciler disabledDashboardStack = Return d"
     "dep_Meta d = \<lparr>om_Name = ''acme-prometheus'', om_Namespace = ''monitoring'',
                  om_Labels = getLabels disabledDashboardStack ''prometheus'',
                  om_Controller = None\<rparr>"
    using buildPrometheusDeployment_disabledDashboardStack by blast
  have 0: "dashboardStatus disabledDashboardWorld =
     Some \<lparr>cs_Ready = True, cs_Replicas = 1, cs_Message = ''Ready'',
           cs_Endpoint = ''http://acme-grafana:3000''\<rparr>"
      "Deployments disabledDashboardWorld (''monitoring'', ''acme-grafana'') =
         Some grafanaDeployment"
      "Services disabledDashboardWorld (''monitoring'', ''acme-grafana'') = Some grafanaService"
    by (simp_all add: dashboardStatus_def disabledDashboardWorld_def emptyWorld_def)
  have 1: "(case Reconcile reconciler (''monitoring'', ''acme'') disabledDashboardWorld of
      (out, w') \<Rightarrow>
        out = Return (\<lparr>RequeueAfter = 300\<rparr>, None) \<and>
        Deployments w' (''monitoring'', ''acme-grafana'') = None \<and>
        Services w' (''monitoring'', ''acme-grafana'') = None \<and>
        dashboardStatus w' =
          Some \<lparr>cs_Ready = True, cs_Replicas = 1, cs_Message = ''Ready'',
                cs_Endpoint = ''http://acme-grafana:3000''\<rparr>)"
    by (simp add: run_defs d dashboardStatus_def disabledDashboardWorld_def emptyWorld_def
        readyDeployment_def unreadyDeployment_def grafanaDeployment_def grafanaService_def
        zeroComponentStatus_def show_int_def show_nat.simps
        cong: prod.case_cong_weak let_weak_cong)
  from 0 1 show ?thesis
    by (intro conjI)
qed

end
